theory Spec2Isabelle
  imports Main "HOL-Library.AList" "HOL-Library.Char_ord" "HOL-Library.List_Lexorder"
    "HOL-Library.Product_Lexorder" "HOL-Library.Multiset"
begin

section \<open>The job record\<close>

text \<open>
  \<^verbatim>\<open>src/lib/jobs.ts\<close> holds the job store twice (an in-memory \<^verbatim>\<open>Map\<close> and a Redis
  backend) and the workflow \<^verbatim>\<open>backportPullRequest\<close> that drives one job. A \<^verbatim>\<open>Date\<close> is
  modelled by its \<^verbatim>\<open>getTime()\<close>, an integer number of milliseconds; the numeric fields
  are integers; the optional fields \<^verbatim>\<open>resultPR?\<close> and \<^verbatim>\<open>error?\<close> are options, \<open>None\<close>
  standing for \<^verbatim>\<open>undefined\<close>.
\<close>

datatype status = Pending | InProgress | Completed | Failed

record BackportJob =
  id' :: string
  repository :: string
  installationId :: int
  sourcePR :: int
  targetBranch :: string
  status :: status
  createdAt :: int
  updatedAt :: int
  requestedBy :: string
  commentId :: int
  resultPR :: "int option"
  error :: "string option"
  logs :: "string list"

text \<open>
  The argument of \<^verbatim>\<open>createJob\<close>:
  \<^verbatim>\<open>Omit<BackportJob, "id" | "status" | "createdAt" | "updatedAt" | "logs">\<close>.
\<close>

record JobParams =
  p_repository :: string
  p_installationId :: int
  p_sourcePR :: int
  p_targetBranch :: string
  p_requestedBy :: string
  p_commentId :: int
  p_resultPR :: "int option"
  p_error :: "string option"

text \<open>
  The argument of \<^verbatim>\<open>updateJob\<close> in the Redis backend:
  \<^verbatim>\<open>Partial<Omit<BackportJob, "id" | "createdAt" | "logs">>\<close>. A field that the object
  literal does not name is \<open>None\<close>. The two optional fields can be named with the value
  \<^verbatim>\<open>undefined\<close> (the workflow writes \<^verbatim>\<open>error: backportResult.error\<close>), which the
  spread copies like any other value: \<open>Some None\<close>. The type has no \<^verbatim>\<open>id\<close> and no
  \<^verbatim>\<open>createdAt\<close>. The in-memory \<^verbatim>\<open>updateJob\<close> omits only \<^verbatim>\<open>id\<close> and \<^verbatim>\<open>createdAt\<close>, so
  its argument can name \<^verbatim>\<open>logs\<close> too.
\<close>

record JobUpdates =
  u_repository :: "string option"
  u_installationId :: "int option"
  u_sourcePR :: "int option"
  u_targetBranch :: "string option"
  u_status :: "status option"
  u_updatedAt :: "int option"
  u_requestedBy :: "string option"
  u_commentId :: "int option"
  u_resultPR :: "int option option"
  u_error :: "string option option"

record MemUpdates = JobUpdates +
  u_logs :: "string list option"

definition no_updates :: JobUpdates where
  "no_updates = \<lparr> u_repository = None, u_installationId = None, u_sourcePR = None,
     u_targetBranch = None, u_status = None, u_updatedAt = None, u_requestedBy = None,
     u_commentId = None, u_resultPR = None, u_error = None \<rparr>"

definition with_logs :: "string list option \<Rightarrow> JobUpdates \<Rightarrow> MemUpdates" where
  "with_logs l u = JobUpdates.extend u (MemUpdates.fields l)"

section \<open>The in-memory store\<close>

text \<open>
  \<^verbatim>\<open>const jobs = new Map<string, BackportJob>()\<close>. A JavaScript \<^verbatim>\<open>Map\<close> iterates in
  insertion order and \<^verbatim>\<open>set\<close> on a key it has keeps the key's place: an association
  list with \<^const>\<open>AList.update\<close>. The clock (\<^verbatim>\<open>new Date()\<close>), the generated id and the
  rendering \<^verbatim>\<open>toISOString\<close> are arguments.
\<close>

type_synonym mem_store = "(string \<times> BackportJob) list"

definition createJob_mem ::
  "string \<Rightarrow> int \<Rightarrow> int \<Rightarrow> JobParams \<Rightarrow> mem_store \<Rightarrow> BackportJob \<times> mem_store" where
  "createJob_mem gid now1 now2 params jobs =
     (let job = \<lparr> id' = gid, repository = p_repository params,
                  installationId = p_installationId params, sourcePR = p_sourcePR params,
                  targetBranch = p_targetBranch params, status = Pending,
                  createdAt = now1, updatedAt = now2,
                  requestedBy = p_requestedBy params, commentId = p_commentId params,
                  resultPR = p_resultPR params, error = p_error params, logs = [] \<rparr>
      in (job, AList.update gid job jobs))"

definition getJob_mem :: "string \<Rightarrow> mem_store \<Rightarrow> BackportJob option" where
  "getJob_mem i jobs = map_of jobs i"

text \<open>The spread \<^verbatim>\<open>{...job, ...updates}\<close>: every named field of the update replaces the job's.\<close>

definition spread_updates :: "BackportJob \<Rightarrow> MemUpdates \<Rightarrow> BackportJob" where
  "spread_updates job u =
     job \<lparr> repository := (case u_repository u of None \<Rightarrow> repository job | Some v \<Rightarrow> v),
           installationId := (case u_installationId u of None \<Rightarrow> installationId job | Some v \<Rightarrow> v),
           sourcePR := (case u_sourcePR u of None \<Rightarrow> sourcePR job | Some v \<Rightarrow> v),
           targetBranch := (case u_targetBranch u of None \<Rightarrow> targetBranch job | Some v \<Rightarrow> v),
           status := (case u_status u of None \<Rightarrow> status job | Some v \<Rightarrow> v),
           updatedAt := (case u_updatedAt u of None \<Rightarrow> updatedAt job | Some v \<Rightarrow> v),
           requestedBy := (case u_requestedBy u of None \<Rightarrow> requestedBy job | Some v \<Rightarrow> v),
           commentId := (case u_commentId u of None \<Rightarrow> commentId job | Some v \<Rightarrow> v),
           resultPR := (case u_resultPR u of None \<Rightarrow> resultPR job | Some v \<Rightarrow> v),
           error := (case u_error u of None \<Rightarrow> error job | Some v \<Rightarrow> v),
           logs := (case u_logs u of None \<Rightarrow> logs job | Some v \<Rightarrow> v) \<rparr>"

definition updateJob_mem ::
  "int \<Rightarrow> string \<Rightarrow> MemUpdates \<Rightarrow> mem_store \<Rightarrow> BackportJob option \<times> mem_store" where
  "updateJob_mem now i updates jobs =
     (case map_of jobs i of
        None \<Rightarrow> (None, jobs)
      | Some job \<Rightarrow>
          (let updated = (spread_updates job updates) \<lparr> updatedAt := now \<rparr>
           in (Some updated, AList.update i updated jobs)))"

text \<open>The log line \<^verbatim>\<open>`[${new Date().toISOString()}] ${message}`\<close>.\<close>

definition log_entry :: "(int \<Rightarrow> string) \<Rightarrow> int \<Rightarrow> string \<Rightarrow> string" where
  "log_entry fmt now message = ''['' @ fmt now @ ''] '' @ message"

definition addJobLog_mem ::
  "(int \<Rightarrow> string) \<Rightarrow> int \<Rightarrow> int \<Rightarrow> string \<Rightarrow> string \<Rightarrow> mem_store \<Rightarrow> mem_store" where
  "addJobLog_mem fmt now1 now2 i message jobs =
     (case map_of jobs i of
        None \<Rightarrow> jobs
      | Some job \<Rightarrow>
          AList.update i (job \<lparr> logs := logs job @ [log_entry fmt now1 message],
                                updatedAt := now2 \<rparr>) jobs)"

text \<open>
  The options of \<^verbatim>\<open>listJobs\<close>. \<^verbatim>\<open>if (options?.repository)\<close> and \<^verbatim>\<open>if (options?.limit)\<close>
  test truthiness: the empty string and the number 0 count as not given. The four status
  strings are not empty, so a given status is always truthy. \<^verbatim>\<open>slice(0, n)\<close> with a
  negative \<open>n\<close> stops \<open>-n\<close> elements before the end.
\<close>

record ListOptions =
  o_repository :: "string option"
  o_status :: "status option"
  o_limit :: "int option"

definition truthy_string :: "string option \<Rightarrow> bool" where
  "truthy_string s = (case s of None \<Rightarrow> False | Some v \<Rightarrow> v \<noteq> [])"

definition truthy_number :: "int option \<Rightarrow> bool" where
  "truthy_number n = (case n of None \<Rightarrow> False | Some v \<Rightarrow> v \<noteq> 0)"

definition slice0 :: "int \<Rightarrow> 'a list \<Rightarrow> 'a list" where
  "slice0 n xs = (if 0 \<le> n then take (nat n) xs else take (length xs - nat (- n)) xs)"

definition listJobs_mem :: "ListOptions \<Rightarrow> mem_store \<Rightarrow> BackportJob list" where
  "listJobs_mem options jobs =
     (let result = map snd jobs;
          result = (if truthy_string (o_repository options)
                    then filter (\<lambda>j. Some (repository j) = o_repository options) result
                    else result);
          result = (if o_status options \<noteq> None
                    then filter (\<lambda>j. Some (status j) = o_status options) result
                    else result);
          result = sort_key (\<lambda>j. - createdAt j) result;
          result = (if truthy_number (o_limit options)
                    then slice0 (the (o_limit options)) result
                    else result)
      in result)"

section \<open>The Redis store\<close>

text \<open>
  The second backend keeps each job in a Redis hash \<^verbatim>\<open>job:<id>\<close>, its log in a Redis list
  \<^verbatim>\<open>job:<id>:logs\<close>, and the ids in the sorted set \<^verbatim>\<open>jobs:all\<close> scored by creation
  time. A hash is a finite map from field names to values; a key that holds no hash is
  \<open>None\<close>. A field value is a string, a number, the ISO-8601 string of an instant
  (\<open>RDate t\<close> is what \<^verbatim>\<open>toISOString\<close> gives for the instant \<open>t\<close>; \<^verbatim>\<open>new Date\<close> of it is
  \<open>t\<close> again), or \<^verbatim>\<open>undefined\<close> where the spread of an update left a property with that
  value. The three kinds of key live in three tables. The sorted set is the association
  list of its members and their scores.
\<close>

datatype rval = RStr string | RNum int | RDate int | RUndefined

type_synonym hash = "string \<rightharpoonup> rval"

record redis =
  hashes :: "string \<rightharpoonup> hash"
  lists :: "string \<rightharpoonup> string list"
  zsets :: "string \<rightharpoonup> (string \<times> int) list"

definition JOB_PREFIX :: string where "JOB_PREFIX = ''job:''"
definition JOB_LOGS_SUFFIX :: string where "JOB_LOGS_SUFFIX = '':logs''"
definition JOB_INDEX :: string where "JOB_INDEX = ''jobs:all''"

definition hgetall :: "redis \<Rightarrow> string \<Rightarrow> hash option" where
  "hgetall r k = hashes r k"

text \<open>\<^verbatim>\<open>HSET\<close> writes the given fields over the hash at the key, which it creates if need be.\<close>

definition hset :: "string \<Rightarrow> hash \<Rightarrow> redis \<Rightarrow> redis" where
  "hset k kvs r =
     r \<lparr> hashes := (hashes r)(k \<mapsto> (case hashes r k of None \<Rightarrow> Map.empty | Some h \<Rightarrow> h) ++ kvs) \<rparr>"

definition lrange_all :: "redis \<Rightarrow> string \<Rightarrow> string list" where
  "lrange_all r k = (case lists r k of None \<Rightarrow> [] | Some l \<Rightarrow> l)"

definition rpush :: "string \<Rightarrow> string \<Rightarrow> redis \<Rightarrow> redis" where
  "rpush k v r = r \<lparr> lists := (lists r)(k \<mapsto> lrange_all r k @ [v]) \<rparr>"

definition zadd :: "string \<Rightarrow> int \<Rightarrow> string \<Rightarrow> redis \<Rightarrow> redis" where
  "zadd k score member r =
     r \<lparr> zsets := (zsets r)(k \<mapsto>
            AList.update member score (case zsets r k of None \<Rightarrow> [] | Some z \<Rightarrow> z)) \<rparr>"

text \<open>
  \<^verbatim>\<open>zrange(key, 0, -1, { rev: true })\<close>: all members, highest score first, members of
  equal score in descending lexicographic order.
\<close>

definition zrange_rev :: "redis \<Rightarrow> string \<Rightarrow> string list" where
  "zrange_rev r k =
     map fst (rev (sort_key (\<lambda>(m, s). (s, m)) (case zsets r k of None \<Rightarrow> [] | Some z \<Rightarrow> z)))"

definition status_string :: "status \<Rightarrow> string" where
  "status_string s = (case s of Pending \<Rightarrow> ''pending'' | InProgress \<Rightarrow> ''in_progress''
                      | Completed \<Rightarrow> ''completed'' | Failed \<Rightarrow> ''failed'')"

text \<open>
  An own property of an object literal that is there only if a value was given:
  \<^verbatim>\<open>...(job.error !== undefined && { error: job.error })\<close>, and a field of a
  \<^verbatim>\<open>Partial\<close> update.
\<close>

definition own_prop :: "string \<Rightarrow> rval option \<Rightarrow> hash" where
  "own_prop k x = (case x of None \<Rightarrow> Map.empty | Some v \<Rightarrow> [k \<mapsto> v])"

definition jobToRedis :: "BackportJob \<Rightarrow> hash" where
  "jobToRedis job =
     [''id'' \<mapsto> RStr (id' job), ''repository'' \<mapsto> RStr (repository job),
      ''installationId'' \<mapsto> RNum (installationId job), ''sourcePR'' \<mapsto> RNum (sourcePR job),
      ''targetBranch'' \<mapsto> RStr (targetBranch job),
      ''status'' \<mapsto> RStr (status_string (status job)),
      ''createdAt'' \<mapsto> RDate (createdAt job), ''updatedAt'' \<mapsto> RDate (updatedAt job),
      ''requestedBy'' \<mapsto> RStr (requestedBy job), ''commentId'' \<mapsto> RNum (commentId job)]
     ++ own_prop ''resultPR'' (map_option RNum (resultPR job))
     ++ own_prop ''error'' (map_option RStr (error job))"

text \<open>
  What \<^verbatim>\<open>jobFromRedis\<close> returns, \<^verbatim>\<open>{...data, createdAt: new Date(data.createdAt),
  updatedAt: new Date(data.updatedAt), logs}\<close>: the fields of the hash as they are, and
  the three fields the literal sets. \<^verbatim>\<open>new Date(undefined)\<close> is an invalid date (\<open>None\<close>);
  so is, in this model, the date of a string that \<^verbatim>\<open>toISOString\<close> did not write.
\<close>

record RedisJob =
  data :: hash
  r_createdAt :: "int option"
  r_updatedAt :: "int option"
  r_logs :: "string list"

definition new_Date :: "rval option \<Rightarrow> int option" where
  "new_Date v = (case v of Some (RDate t) \<Rightarrow> Some t | Some (RNum n) \<Rightarrow> Some n | _ \<Rightarrow> None)"

definition jobFromRedis :: "hash \<Rightarrow> string list \<Rightarrow> RedisJob" where
  "jobFromRedis d l =
     \<lparr> data = d, r_createdAt = new_Date (d ''createdAt''),
       r_updatedAt = new_Date (d ''updatedAt''), r_logs = l \<rparr>"

definition createJob_redis :: "string \<Rightarrow> int \<Rightarrow> JobParams \<Rightarrow> redis \<Rightarrow> BackportJob \<times> redis" where
  "createJob_redis gid now params r =
     (let job = \<lparr> id' = gid, repository = p_repository params,
                  installationId = p_installationId params, sourcePR = p_sourcePR params,
                  targetBranch = p_targetBranch params, status = Pending,
                  createdAt = now, updatedAt = now,
                  requestedBy = p_requestedBy params, commentId = p_commentId params,
                  resultPR = p_resultPR params, error = p_error params, logs = [] \<rparr>;
          r = hset (JOB_PREFIX @ id' job) (jobToRedis job) r;
          r = zadd JOB_INDEX now (id' job) r
      in (job, r))"

text \<open>\<^verbatim>\<open>Object.keys(data).length === 0\<close> is \<open>dom d = {}\<close>.\<close>

definition getJob_redis :: "string \<Rightarrow> redis \<Rightarrow> RedisJob option" where
  "getJob_redis i r =
     (case hgetall r (JOB_PREFIX @ i) of
        None \<Rightarrow> None
      | Some d \<Rightarrow>
          if dom d = {} then None
          else Some (jobFromRedis d (lrange_all r (JOB_PREFIX @ i @ JOB_LOGS_SUFFIX))))"

text \<open>
  The own properties of an update object. An \<^verbatim>\<open>updatedAt\<close> in it is a \<^verbatim>\<open>Date\<close>, which
  the literal's own \<^verbatim>\<open>updatedAt\<close> replaces.
\<close>

definition updates_fields :: "JobUpdates \<Rightarrow> hash" where
  "updates_fields u =
     own_prop ''repository'' (map_option RStr (u_repository u))
     ++ own_prop ''installationId'' (map_option RNum (u_installationId u))
     ++ own_prop ''sourcePR'' (map_option RNum (u_sourcePR u))
     ++ own_prop ''targetBranch'' (map_option RStr (u_targetBranch u))
     ++ own_prop ''status'' (map_option (\<lambda>s. RStr (status_string s)) (u_status u))
     ++ own_prop ''updatedAt'' (map_option RDate (u_updatedAt u))
     ++ own_prop ''requestedBy'' (map_option RStr (u_requestedBy u))
     ++ own_prop ''commentId'' (map_option RNum (u_commentId u))
     ++ own_prop ''resultPR''
          (map_option (\<lambda>v. case v of None \<Rightarrow> RUndefined | Some n \<Rightarrow> RNum n) (u_resultPR u))
     ++ own_prop ''error''
          (map_option (\<lambda>v. case v of None \<Rightarrow> RUndefined | Some e \<Rightarrow> RStr e) (u_error u))"

definition updateJob_redis ::
  "int \<Rightarrow> string \<Rightarrow> JobUpdates \<Rightarrow> redis \<Rightarrow> RedisJob option \<times> redis" where
  "updateJob_redis now i updates r =
     (case hgetall r (JOB_PREFIX @ i) of
        None \<Rightarrow> (None, r)
      | Some existing \<Rightarrow>
          if dom existing = {} then (None, r)
          else
            (let updatedData = (existing ++ updates_fields updates)(''updatedAt'' \<mapsto> RDate now);
                 r = hset (JOB_PREFIX @ i) updatedData r;
                 l = lrange_all r (JOB_PREFIX @ i @ JOB_LOGS_SUFFIX)
             in (Some (jobFromRedis updatedData l), r)))"

definition addJobLog_redis ::
  "(int \<Rightarrow> string) \<Rightarrow> int \<Rightarrow> int \<Rightarrow> string \<Rightarrow> string \<Rightarrow> redis \<Rightarrow> redis" where
  "addJobLog_redis fmt now1 now2 i message r =
     (let logEntry = log_entry fmt now1 message;
          r = rpush (JOB_PREFIX @ i @ JOB_LOGS_SUFFIX) logEntry r;
          r = hset (JOB_PREFIX @ i) [''updatedAt'' \<mapsto> RDate now2] r
      in r)"

definition listJobs_redis :: "ListOptions \<Rightarrow> redis \<Rightarrow> RedisJob list" where
  "listJobs_redis options r =
     (let limit = (if truthy_number (o_limit options) then the (o_limit options) else 50);
          jobIds = zrange_rev r JOB_INDEX
      in if length jobIds = 0 then []
         else
           (let jobs = map (\<lambda>i. getJob_redis i r) jobIds;
                result = map the (filter (\<lambda>j. j \<noteq> None) jobs);
                result = (if truthy_string (o_repository options)
                          then filter (\<lambda>j. data j ''repository''
                                              = map_option RStr (o_repository options)) result
                          else result);
                result = (if o_status options \<noteq> None
                          then filter (\<lambda>j. data j ''status''
                                 = map_option (\<lambda>s. RStr (status_string s)) (o_status options)) result
                          else result)
            in slice0 limit result))"

text \<open>
  The states of the Redis database that the store's own operations produce from the empty
  database.
\<close>

definition empty_redis :: redis where
  "empty_redis = \<lparr> hashes = Map.empty, lists = Map.empty, zsets = Map.empty \<rparr>"

inductive reachable :: "redis \<Rightarrow> bool" where
  init: "reachable empty_redis"
| create: "reachable r \<Longrightarrow> reachable (snd (createJob_redis gid now params r))"
| update: "reachable r \<Longrightarrow> reachable (snd (updateJob_redis now i updates r))"
| log: "reachable r \<Longrightarrow> reachable (addJobLog_redis fmt now1 now2 i message r)"

text \<open>The filter of \<^verbatim>\<open>listJobs\<close>, as the two \<^verbatim>\<open>if\<close> statements apply it.\<close>

definition selected :: "ListOptions \<Rightarrow> string \<Rightarrow> status \<Rightarrow> bool" where
  "selected options repo st =
     ((truthy_string (o_repository options) \<longrightarrow> o_repository options = Some repo)
      \<and> (o_status options \<noteq> None \<longrightarrow> o_status options = Some st))"

definition selected_redis :: "ListOptions \<Rightarrow> RedisJob \<Rightarrow> bool" where
  "selected_redis options j =
     ((truthy_string (o_repository options) \<longrightarrow>
         data j ''repository'' = map_option RStr (o_repository options))
      \<and> (o_status options \<noteq> None \<longrightarrow>
         data j ''status'' = map_option (\<lambda>s. RStr (status_string s)) (o_status options)))"

section \<open>Example data\<close>

definition example_params :: JobParams where
  "example_params = \<lparr> p_repository = ''octo/app'', p_installationId = 7, p_sourcePR = 42,
     p_targetBranch = ''v1'', p_requestedBy = ''alice'', p_commentId = 99,
     p_resultPR = None, p_error = None \<rparr>"

definition example_store :: mem_store where
  "example_store = snd (createJob_mem ''bp_1_a'' 1000 1000 example_params [])"

definition example_redis :: redis where
  "example_redis = snd (createJob_redis ''bp_1_a'' 1000 example_params empty_redis)"

definition example_store2 :: mem_store where
  "example_store2 = snd (createJob_mem ''bp_2_b'' 2000 2000 example_params example_store)"

definition example_redis2 :: redis where
  "example_redis2 = snd (createJob_redis ''bp_2_b'' 2000 example_params example_redis)"

definition no_options :: ListOptions where
  "no_options = \<lparr> o_repository = None, o_status = None, o_limit = None \<rparr>"


section \<open>The workflow\<close>

subsection \<open>Values, errors and the collaborator\<close>

text \<open>
  What a step can throw: the \<^verbatim>\<open>FatalError\<close> of the workflow package, the request error
  of the GitHub client (status and message), a \<^verbatim>\<open>TypeError\<close>, or a value that is not an
  \<^verbatim>\<open>Error\<close>. The \<^verbatim>\<open>catch\<close> block of the workflow reads
  \<^verbatim>\<open>error instanceof Error ? error.message : "Unknown error"\<close>.
\<close>

datatype thrown = FatalError string | RequestError int string | TypeError string | NonError

fun error_message :: "thrown \<Rightarrow> string" where
  "error_message (FatalError m) = m"
| "error_message (RequestError st m) = m"
| "error_message (TypeError m) = m"
| "error_message NonError = ''Unknown error''"

fun is_fatal :: "thrown \<Rightarrow> bool" where
  "is_fatal (FatalError m) = True"
| "is_fatal e = False"

record commit =
  commit_sha :: string
  commit_message :: string

record pull =
  pull_title :: string
  pull_body :: "string option"
  base_ref :: string
  head_ref :: string
  head_sha :: string
  pull_merged :: bool
  merge_commit_sha :: "string option"

record pr_details =
  title :: string
  body :: "string option"
  baseBranch :: string
  headBranch :: string
  headSha :: string
  commits :: "commit list"
  merged :: bool
  mergeCommitSha :: "string option"
  diff :: string

record analysis =
  complexity :: string
  filesChanged :: nat
  potentialConflicts :: "string list"
  recommendations :: "string list"

record perform_result =
  success :: bool
  branch :: "string option"
  pb_error :: "string option"

record BackportResult =
  br_success :: bool
  br_resultPR :: "int option"
  br_error :: "string option"

record BackportParams =
  bp_jobId :: string
  bp_installationId :: int
  bp_repository :: string
  bp_prNumber :: int
  bp_targetBranch :: string
  bp_commentId :: int

text \<open>
  The requests to the source-control collaborator. The \<^verbatim>\<open>owner\<close> and \<^verbatim>\<open>repo\<close> of a
  request are the first two pieces of \<^verbatim>\<open>repository.split("/")\<close>; the request records
  the repository string they come from. \<open>Auth\<close> is \<^verbatim>\<open>getInstallationOctokit\<close>.
\<close>

datatype call =
    Auth int
  | React string int string
  | GetPR string int
  | ListCommits string int
  | GetDiff string int
  | GetBranch string string
  | CreatePR string string "string option" string string
  | CreateComment string int string

text \<open>
  The collaborator answers a request knowing the requests made before it, so that it can
  fail twice and then succeed. \<open>None\<close> is success for a request without a result.
\<close>

record collaborator =
  getInstallationOctokit :: "call list \<Rightarrow> int \<Rightarrow> thrown option"
  createForIssueComment :: "call list \<Rightarrow> string \<Rightarrow> int \<Rightarrow> string \<Rightarrow> thrown option"
  pulls_get :: "call list \<Rightarrow> string \<Rightarrow> int \<Rightarrow> thrown + pull"
  pulls_listCommits :: "call list \<Rightarrow> string \<Rightarrow> int \<Rightarrow> thrown + commit list"
  pulls_get_diff :: "call list \<Rightarrow> string \<Rightarrow> int \<Rightarrow> thrown + string"
  getBranch :: "call list \<Rightarrow> string \<Rightarrow> string \<Rightarrow> thrown option"
  pulls_create ::
    "call list \<Rightarrow> string \<Rightarrow> string \<Rightarrow> string option \<Rightarrow> string \<Rightarrow> string \<Rightarrow> thrown + int"
  createComment :: "call list \<Rightarrow> string \<Rightarrow> int \<Rightarrow> string \<Rightarrow> thrown option"

text \<open>
  A step body runs against the list of the requests made so far and returns what it
  returns or throws, with the requests it made added.
\<close>

type_synonym 'a io = "call list \<Rightarrow> (thrown + 'a) \<times> call list"

definition io_return :: "'a \<Rightarrow> 'a io" where
  "io_return a cs = (Inr a, cs)"

definition io_throw :: "thrown \<Rightarrow> 'a io" where
  "io_throw e cs = (Inl e, cs)"

definition io_bind :: "'a io \<Rightarrow> ('a \<Rightarrow> 'b io) \<Rightarrow> 'b io" where
  "io_bind m f cs = (case m cs of (Inl e, cs') \<Rightarrow> (Inl e, cs') | (Inr a, cs') \<Rightarrow> f a cs')"

definition io_catch :: "'a io \<Rightarrow> (thrown \<Rightarrow> 'a io) \<Rightarrow> 'a io" where
  "io_catch m h cs = (case m cs of (Inl e, cs') \<Rightarrow> h e cs' | (Inr a, cs') \<Rightarrow> (Inr a, cs'))"

definition request_unit :: "call \<Rightarrow> (call list \<Rightarrow> thrown option) \<Rightarrow> unit io" where
  "request_unit c answer cs =
     ((case answer cs of Some e \<Rightarrow> Inl e | None \<Rightarrow> Inr ()), cs @ [c])"

definition request :: "call \<Rightarrow> (call list \<Rightarrow> thrown + 'a) \<Rightarrow> 'a io" where
  "request c answer cs = (answer cs, cs @ [c])"

subsection \<open>Printing numbers\<close>

text \<open>The decimal digits that a template literal writes for an integer.\<close>

fun digits :: "nat \<Rightarrow> string" where
  "digits n = (if n < 10 then [char_of (48 + n)] else digits (n div 10) @ [char_of (48 + n mod 10)])"

definition show_int :: "int \<Rightarrow> string" where
  "show_int n = (if n < 0 then ''-'' @ digits (nat (- n)) else digits (nat n))"

subsection \<open>The step bodies\<close>

definition octokit :: "collaborator \<Rightarrow> int \<Rightarrow> unit io" where
  "octokit c installation =
     request_unit (Auth installation) (\<lambda>cs. getInstallationOctokit c cs installation)"

definition acknowledgeRequest :: "collaborator \<Rightarrow> int \<Rightarrow> string \<Rightarrow> int \<Rightarrow> unit io" where
  "acknowledgeRequest c installation repo comment =
     io_bind (octokit c installation) (\<lambda>_.
       request_unit (React repo comment ''eyes'')
         (\<lambda>cs. createForIssueComment c cs repo comment ''eyes''))"

definition fetchPRDetails :: "collaborator \<Rightarrow> int \<Rightarrow> string \<Rightarrow> int \<Rightarrow> pr_details io" where
  "fetchPRDetails c installation repo prNumber =
     io_bind (octokit c installation) (\<lambda>_.
     io_bind (request (GetPR repo prNumber) (\<lambda>cs. pulls_get c cs repo prNumber)) (\<lambda>pr.
     io_bind (request (ListCommits repo prNumber) (\<lambda>cs. pulls_listCommits c cs repo prNumber))
       (\<lambda>cms.
     io_bind (request (GetDiff repo prNumber) (\<lambda>cs. pulls_get_diff c cs repo prNumber)) (\<lambda>d.
     io_return \<lparr> title = pull_title pr, body = pull_body pr, baseBranch = base_ref pr,
                 headBranch = head_ref pr, headSha = head_sha pr, commits = cms,
                 merged = pull_merged pr, mergeCommitSha = merge_commit_sha pr,
                 diff = d \<rparr>))))"

definition branch_missing :: "string \<Rightarrow> string" where
  "branch_missing target = ''Target branch '' @ [CHR 0x27] @ target @ [CHR 0x27]
     @ '' does not exist''"

text \<open>
  The \<^verbatim>\<open>try\<close> of \<^verbatim>\<open>validateTargetBranch\<close> encloses the \<^verbatim>\<open>getBranch\<close> request only, and
  its \<^verbatim>\<open>catch\<close> turns whatever the request throws into the \<^verbatim>\<open>FatalError\<close>.
\<close>

definition validateTargetBranch :: "collaborator \<Rightarrow> int \<Rightarrow> string \<Rightarrow> string \<Rightarrow> unit io" where
  "validateTargetBranch c installation repo target =
     io_bind (octokit c installation) (\<lambda>_.
       io_catch
         (request_unit (GetBranch repo target) (\<lambda>cs. getBranch c cs repo target))
         (\<lambda>err. io_throw (FatalError (branch_missing target))))"

text \<open>
  \<^verbatim>\<open>(prDetails.diff?.match(/^diff --git/gm) || []).length\<close>: the number of lines of the
  diff that begin with \<^verbatim>\<open>diff --git\<close>, a line beginning at the start of the text and
  after a line feed or a carriage return.
\<close>

fun count_line_starts :: "string \<Rightarrow> bool \<Rightarrow> string \<Rightarrow> nat" where
  "count_line_starts pat at_start [] = 0"
| "count_line_starts pat at_start (c # cs) =
     (if at_start \<and> take (length pat) (c # cs) = pat then 1 else 0)
     + count_line_starts pat (c = CHR 0x0A \<or> c = CHR 0x0D) cs"

definition analyzeChanges :: "pr_details \<Rightarrow> string \<Rightarrow> analysis io" where
  "analyzeChanges prDetails target =
     (let n = count_line_starts ''diff --git'' True (diff prDetails)
      in io_return \<lparr> complexity = (if n > 10 then ''high'' else if n > 3 then ''medium''
                                     else ''low''),
                     filesChanged = n, potentialConflicts = [], recommendations = [] \<rparr>)"

text \<open>
  \<^verbatim>\<open>performBackport\<close> is a placeholder that always returns the same failure value. The
  workflow below takes the body of this step as an argument, so that what is proved of it
  holds for the placeholder and for whatever replaces it.
\<close>

type_synonym perform = "int \<Rightarrow> string \<Rightarrow> pr_details \<Rightarrow> string \<Rightarrow> analysis \<Rightarrow> thrown + perform_result"

definition performBackport :: perform where
  "performBackport installation repo prDetails target an =
     Inr \<lparr> success = False, branch = None,
           pb_error = Some ''Backport execution not yet implemented (coming in Phase 6)'' \<rparr>"

definition backport_pr_title :: "string \<Rightarrow> int \<Rightarrow> string" where
  "backport_pr_title target sourcePR' =
     ''[Backport '' @ target @ ''] Changes from #'' @ show_int sourcePR'"

definition backport_pr_body :: "string \<Rightarrow> int \<Rightarrow> string" where
  "backport_pr_body target sourcePR' =
     ''This is an automated backport of #'' @ show_int sourcePR' @ '' to `'' @ target
     @ ''`.'' @ [CHR 0x0A, CHR 0x0A] @ ''Created by agent-backport.''"

definition createBackportPR ::
  "collaborator \<Rightarrow> int \<Rightarrow> string \<Rightarrow> int \<Rightarrow> string \<Rightarrow> string option \<Rightarrow> int io" where
  "createBackportPR c installation repo sourcePR' target backportBranch =
     io_bind (octokit c installation) (\<lambda>_.
       request (CreatePR repo (backport_pr_title target sourcePR') backportBranch
                  target (backport_pr_body target sourcePR'))
         (\<lambda>cs. pulls_create c cs repo (backport_pr_title target sourcePR') backportBranch
                  target (backport_pr_body target sourcePR')))"

text \<open>The two comments; the check mark and the cross are their UTF-8 bytes.\<close>

definition success_comment :: "string \<Rightarrow> int \<Rightarrow> string" where
  "success_comment target resultPR' =
     [CHR 0xE2, CHR 0x9C, CHR 0x85] @ '' Successfully backported to `'' @ target @ ''`!''
     @ [CHR 0x0A, CHR 0x0A] @ ''See #'' @ show_int resultPR'"

definition failure_comment :: "string \<Rightarrow> string \<Rightarrow> string" where
  "failure_comment target err =
     [CHR 0xE2, CHR 0x9D, CHR 0x8C] @ '' Failed to backport to `'' @ target @ ''`.''
     @ [CHR 0x0A, CHR 0x0A] @ ''**Error:** '' @ err @ [CHR 0x0A, CHR 0x0A]
     @ ''Please try backporting manually.''"

definition reportSuccess :: "collaborator \<Rightarrow> int \<Rightarrow> string \<Rightarrow> int \<Rightarrow> int \<Rightarrow> string \<Rightarrow> unit io" where
  "reportSuccess c installation repo prNumber resultPR' target =
     io_bind (octokit c installation) (\<lambda>_.
       request_unit (CreateComment repo prNumber (success_comment target resultPR'))
         (\<lambda>cs. createComment c cs repo prNumber (success_comment target resultPR')))"

text \<open>
  \<^verbatim>\<open>reportFailure\<close> is called with \<^verbatim>\<open>backportResult.error!\<close>; a template literal writes
  \<^verbatim>\<open>undefined\<close> for a missing value.
\<close>

definition reportFailure ::
  "collaborator \<Rightarrow> int \<Rightarrow> string \<Rightarrow> int \<Rightarrow> string \<Rightarrow> string option \<Rightarrow> unit io" where
  "reportFailure c installation repo prNumber target err =
     (let text = (case err of None \<Rightarrow> ''undefined'' | Some e \<Rightarrow> e)
      in io_bind (octokit c installation) (\<lambda>_.
           request_unit (CreateComment repo prNumber (failure_comment target text))
             (\<lambda>cs. createComment c cs repo prNumber (failure_comment target text))))"

subsection \<open>The step executor\<close>

text \<open>
  Modelled from the spec: the Step Executor (section 4.2) and the retry policy of the
  Workflow Engine (section 4.3). The source has them from the package \<^verbatim>\<open>workflow\<close>
  (the directives \<^verbatim>\<open>"use workflow"\<close> and \<^verbatim>\<open>"use step"\<close>, and \<^verbatim>\<open>FatalError\<close>), whose code is
  not in the repository. One run has one durable table from step names to recorded
  results. \<open>execute\<close> returns the recorded result of a step that has one, without
  calling the body. Otherwise it calls the body; a \<^verbatim>\<open>FatalError\<close> is final at once, any other
  error is retried until the attempt ceiling is reached and then final with the last
  error; the final result is recorded. The backoff between attempts takes time only and
  is not modelled. \<open>attempts\<close> counts the calls of each body.

  An interruption of the process is the third outcome, \<open>Crashed\<close>, which no \<^verbatim>\<open>catch\<close>
  sees: with \<open>budget = Some k\<close> the process dies when the run is about to dispatch its
  \<open>(k+1)\<close>-th step that has no recorded result. The table, the job store and the
  collaborator survive.
\<close>

datatype step =
    AcknowledgeRequest | FetchPRDetails | ValidateTargetBranch | AnalyzeChanges
  | PerformBackport | CreateBackportPR | ReportSuccess | ReportFailure

datatype step_value =
    VUndefined | VDetails pr_details | VAnalysis analysis | VPerform perform_result
  | VNumber int

datatype 'a outcome = Returned 'a | Threw thrown | Crashed

record 's world =
  store :: 's
  ticks :: nat
  calls :: "call list"
  recorded :: "step \<rightharpoonup> thrown + step_value"
  attempts :: "step \<Rightarrow> nat"
  budget :: "nat option"

record env =
  clock :: "nat \<Rightarrow> int"
  toISOString :: "int \<Rightarrow> string"
  github :: collaborator
  attempt_ceiling :: nat

type_synonym ('s, 'a) prog = "'s world \<Rightarrow> 'a outcome \<times> 's world"

definition wf_return :: "'a \<Rightarrow> ('s, 'a) prog" where
  "wf_return a w = (Returned a, w)"

definition wf_throw :: "thrown \<Rightarrow> ('s, 'a) prog" where
  "wf_throw e w = (Threw e, w)"

definition wf_bind :: "('s, 'a) prog \<Rightarrow> ('a \<Rightarrow> ('s, 'b) prog) \<Rightarrow> ('s, 'b) prog" where
  "wf_bind m f w =
     (case m w of
        (Returned a, w') \<Rightarrow> f a w'
      | (Threw e, w') \<Rightarrow> (Threw e, w')
      | (Crashed, w') \<Rightarrow> (Crashed, w'))"

definition wf_seq :: "('s, 'a) prog \<Rightarrow> ('s, 'b) prog \<Rightarrow> ('s, 'b) prog" where
  "wf_seq m n = wf_bind m (\<lambda>_. n)"

definition wf_try :: "('s, 'a) prog \<Rightarrow> (thrown \<Rightarrow> ('s, 'a) prog) \<Rightarrow> ('s, 'a) prog" where
  "wf_try m h w =
     (case m w of
        (Returned a, w') \<Rightarrow> (Returned a, w')
      | (Threw e, w') \<Rightarrow> h e w'
      | (Crashed, w') \<Rightarrow> (Crashed, w'))"

definition outcome_of :: "thrown + 'a \<Rightarrow> 'a outcome" where
  "outcome_of r = (case r of Inl e \<Rightarrow> Threw e | Inr a \<Rightarrow> Returned a)"

definition attempt :: "step \<Rightarrow> step_value io \<Rightarrow> 's world \<Rightarrow> (thrown + step_value) \<times> 's world" where
  "attempt s fn w =
     (case fn (calls w) of
        (r, cs) \<Rightarrow> (r, w \<lparr> calls := cs, attempts := (attempts w)(s := Suc (attempts w s)) \<rparr>))"

text \<open>\<open>run_attempts n\<close> makes one attempt and up to \<open>n\<close> more after errors that are not fatal.\<close>

primrec run_attempts ::
  "nat \<Rightarrow> step \<Rightarrow> step_value io \<Rightarrow> 's world \<Rightarrow> (thrown + step_value) \<times> 's world" where
  "run_attempts 0 s fn w = attempt s fn w"
| "run_attempts (Suc n) s fn w =
     (case attempt s fn w of
        (Inr v, w') \<Rightarrow> (Inr v, w')
      | (Inl e, w') \<Rightarrow> if is_fatal e then (Inl e, w') else run_attempts n s fn w')"

definition execute :: "env \<Rightarrow> step \<Rightarrow> step_value io \<Rightarrow> ('s, step_value) prog" where
  "execute e s fn w =
     (case recorded w s of
        Some r \<Rightarrow> (outcome_of r, w)
      | None \<Rightarrow>
          if budget w = Some 0 then (Crashed, w)
          else
            (case run_attempts (attempt_ceiling e - 1) s fn w of
               (r, w') \<Rightarrow>
                 (outcome_of r,
                  w' \<lparr> recorded := (recorded w')(s \<mapsto> r),
                       budget := map_option (\<lambda>b. b - 1) (budget w') \<rparr>)))"

text \<open>
  A step whose body returns an \<open>'a\<close>. The table holds values of any shape; reading a
  field of a recorded value of another shape is a \<^verbatim>\<open>TypeError\<close>.
\<close>

definition run_step ::
  "env \<Rightarrow> step \<Rightarrow> ('a \<Rightarrow> step_value) \<Rightarrow> (step_value \<Rightarrow> 'a option) \<Rightarrow> 'a io \<Rightarrow> ('s, 'a) prog" where
  "run_step e s wrap proj fn =
     wf_bind (execute e s (io_bind fn (\<lambda>a. io_return (wrap a))))
       (\<lambda>v. case proj v of
               Some a \<Rightarrow> wf_return a
             | None \<Rightarrow> wf_throw (TypeError ''recorded value has another shape''))"

definition any_value :: "step_value \<Rightarrow> unit option" where
  "any_value v = Some ()"

definition details_of :: "step_value \<Rightarrow> pr_details option" where
  "details_of v = (case v of VDetails d \<Rightarrow> Some d | _ \<Rightarrow> None)"

definition analysis_of :: "step_value \<Rightarrow> analysis option" where
  "analysis_of v = (case v of VAnalysis a \<Rightarrow> Some a | _ \<Rightarrow> None)"

definition perform_of :: "step_value \<Rightarrow> perform_result option" where
  "perform_of v = (case v of VPerform r \<Rightarrow> Some r | _ \<Rightarrow> None)"

definition number_of :: "step_value \<Rightarrow> int option" where
  "number_of v = (case v of VNumber n \<Rightarrow> Some n | _ \<Rightarrow> None)"

subsection \<open>The store as the workflow uses it\<close>

text \<open>
  The workflow imports \<^verbatim>\<open>updateJob\<close> and \<^verbatim>\<open>addJobLog\<close> from \<^verbatim>\<open>@/lib/jobs\<close>, of which the
  source has two versions; it is modelled over either. It calls both outside any step and
  ignores what they return. Each \<^verbatim>\<open>new Date()\<close> reads the clock once more.
\<close>

record 's store_ops =
  updateJob_op :: "int \<Rightarrow> string \<Rightarrow> JobUpdates \<Rightarrow> 's \<Rightarrow> 's"
  addJobLog_op :: "(int \<Rightarrow> string) \<Rightarrow> int \<Rightarrow> int \<Rightarrow> string \<Rightarrow> string \<Rightarrow> 's \<Rightarrow> 's"

definition mem_ops :: "mem_store store_ops" where
  "mem_ops = \<lparr> updateJob_op = (\<lambda>now i u s. snd (updateJob_mem now i (with_logs None u) s)),
               addJobLog_op = addJobLog_mem \<rparr>"

definition redis_ops :: "redis store_ops" where
  "redis_ops = \<lparr> updateJob_op = (\<lambda>now i u s. snd (updateJob_redis now i u s)),
                 addJobLog_op = addJobLog_redis \<rparr>"

definition addJobLog :: "'s store_ops \<Rightarrow> env \<Rightarrow> string \<Rightarrow> string \<Rightarrow> ('s, unit) prog" where
  "addJobLog ops e i msg w =
     (Returned (),
      w \<lparr> store := addJobLog_op ops (toISOString e) (clock e (ticks w))
                     (clock e (Suc (ticks w))) i msg (store w),
          ticks := ticks w + 2 \<rparr>)"

definition updateJob :: "'s store_ops \<Rightarrow> env \<Rightarrow> string \<Rightarrow> JobUpdates \<Rightarrow> ('s, unit) prog" where
  "updateJob ops e i u w =
     (Returned (),
      w \<lparr> store := updateJob_op ops (clock e (ticks w)) i u (store w), ticks := Suc (ticks w) \<rparr>)"

text \<open>
  What a reader sees of a job: \<^verbatim>\<open>job.status\<close>, \<^verbatim>\<open>job.resultPR\<close> and \<^verbatim>\<open>job.error\<close>,
  \<open>None\<close> for a field that is missing or \<^verbatim>\<open>undefined\<close>.
\<close>

type_synonym job_view = "status option \<times> int option \<times> string option"

text \<open>What an update makes of these three fields.\<close>

definition merge_view :: "JobUpdates \<Rightarrow> job_view \<Rightarrow> job_view" where
  "merge_view u v =
     (case v of (st, pr, er) \<Rightarrow>
        (case u_status u of None \<Rightarrow> st | Some x \<Rightarrow> Some x,
         case u_resultPR u of None \<Rightarrow> pr | Some x \<Rightarrow> x,
         case u_error u of None \<Rightarrow> er | Some x \<Rightarrow> x))"

text \<open>
  What the proofs about the workflow use of a store: a log line on a job that is there
  changes no view, and an update changes the view of its job by \<open>merge_view\<close> and no
  other.
\<close>

definition tracks :: "'s store_ops \<Rightarrow> ('s \<Rightarrow> string \<Rightarrow> job_view option) \<Rightarrow> bool" where
  "tracks ops view =
     ((\<forall>fmt a b i msg s j. view s i \<noteq> None \<longrightarrow>
          view (addJobLog_op ops fmt a b i msg s) j = view s j)
      \<and> (\<forall>now i u s j.
          view (updateJob_op ops now i u s) j
            = (if j = i then map_option (merge_view u) (view s j) else view s j)))"

definition view_mem :: "mem_store \<Rightarrow> string \<Rightarrow> job_view option" where
  "view_mem s i = map_option (\<lambda>j. (Some (status j), resultPR j, error j)) (getJob_mem i s)"

definition read_status :: "rval option \<Rightarrow> status option" where
  "read_status v =
     (if v = Some (RStr ''pending'') then Some Pending
      else if v = Some (RStr ''in_progress'') then Some InProgress
      else if v = Some (RStr ''completed'') then Some Completed
      else if v = Some (RStr ''failed'') then Some Failed
      else None)"

definition read_number :: "rval option \<Rightarrow> int option" where
  "read_number v = (case v of Some (RNum n) \<Rightarrow> Some n | _ \<Rightarrow> None)"

definition read_string :: "rval option \<Rightarrow> string option" where
  "read_string v = (case v of Some (RStr s) \<Rightarrow> Some s | _ \<Rightarrow> None)"

definition view_redis :: "redis \<Rightarrow> string \<Rightarrow> job_view option" where
  "view_redis r i =
     map_option (\<lambda>j. (read_status (data j ''status''), read_number (data j ''resultPR''),
                      read_string (data j ''error'')))
       (getJob_redis i r)"

subsection \<open>backportPullRequest\<close>

text \<open>
  The body of the \<^verbatim>\<open>try\<close> block, statement by statement, and the \<^verbatim>\<open>catch\<close> block. A
  template literal writes \<^verbatim>\<open>undefined\<close> for a missing \<^verbatim>\<open>backportResult.error\<close>.
\<close>

definition or_undefined :: "string option \<Rightarrow> string" where
  "or_undefined x = (case x of None \<Rightarrow> ''undefined'' | Some s \<Rightarrow> s)"

text \<open>Step 6, \<^verbatim>\<open>if (backportResult.success) { ... } else { ... }\<close>.\<close>

definition create_or_report ::
  "'s store_ops \<Rightarrow> env \<Rightarrow> BackportParams \<Rightarrow> perform_result \<Rightarrow> ('s, BackportResult) prog" where
  "create_or_report ops e params backportResult =
    (if success backportResult then
       wf_seq (addJobLog ops e (bp_jobId params) ''Backport successful, creating PR...'')
       (wf_bind (run_step e CreateBackportPR VNumber number_of
           (createBackportPR (github e) (bp_installationId params) (bp_repository params)
              (bp_prNumber params) (bp_targetBranch params) (branch backportResult))) (\<lambda>pr.
       wf_seq (run_step e ReportSuccess (\<lambda>_. VUndefined) any_value
           (reportSuccess (github e) (bp_installationId params) (bp_repository params)
              (bp_prNumber params) pr (bp_targetBranch params)))
       (wf_seq (updateJob ops e (bp_jobId params)
           (no_updates \<lparr> u_status := Some Completed, u_resultPR := Some (Some pr) \<rparr>))
       (wf_seq (addJobLog ops e (bp_jobId params) (''Backport PR created: #'' @ show_int pr))
       (wf_return \<lparr> br_success = True, br_resultPR = Some pr, br_error = None \<rparr>)))))
     else
       wf_seq (addJobLog ops e (bp_jobId params) (''Backport failed: '' @ or_undefined (pb_error backportResult)))
       (wf_seq (run_step e ReportFailure (\<lambda>_. VUndefined) any_value
           (reportFailure (github e) (bp_installationId params) (bp_repository params)
              (bp_prNumber params) (bp_targetBranch params) (pb_error backportResult)))
       (wf_seq (updateJob ops e (bp_jobId params)
           (no_updates \<lparr> u_status := Some Failed, u_error := Some (pb_error backportResult) \<rparr>))
       (wf_return \<lparr> br_success = False, br_resultPR = None,
           br_error = pb_error backportResult \<rparr>))))"

definition try_block ::
  "perform \<Rightarrow> 's store_ops \<Rightarrow> env \<Rightarrow> BackportParams \<Rightarrow> ('s, BackportResult) prog" where
  "try_block pb ops e params =
     wf_seq (run_step e AcknowledgeRequest (\<lambda>_. VUndefined) any_value
         (acknowledgeRequest (github e) (bp_installationId params) (bp_repository params)
            (bp_commentId params)))
     (wf_seq (addJobLog ops e (bp_jobId params) ''Request acknowledged'')
     (wf_seq (addJobLog ops e (bp_jobId params) ''Fetching PR details...'')
     (wf_bind (run_step e FetchPRDetails VDetails details_of
         (fetchPRDetails (github e) (bp_installationId params) (bp_repository params)
            (bp_prNumber params))) (\<lambda>prDetails.
     wf_seq (addJobLog ops e (bp_jobId params) (''PR title: '' @ title prDetails))
     (wf_seq (addJobLog ops e (bp_jobId params) (''Commits: '' @ show_int (int (length (commits prDetails)))))
     (wf_seq (addJobLog ops e (bp_jobId params) (''Validating target branch: '' @ bp_targetBranch params))
     (wf_seq (run_step e ValidateTargetBranch (\<lambda>_. VUndefined) any_value
         (validateTargetBranch (github e) (bp_installationId params) (bp_repository params)
            (bp_targetBranch params)))
     (wf_seq (addJobLog ops e (bp_jobId params) ''Target branch exists'')
     (wf_seq (addJobLog ops e (bp_jobId params) ''Analyzing changes...'')
     (wf_bind (run_step e AnalyzeChanges VAnalysis analysis_of
         (analyzeChanges prDetails (bp_targetBranch params))) (\<lambda>an.
     wf_seq (addJobLog ops e (bp_jobId params) (''Analysis complete. Complexity: '' @ complexity an))
     (wf_seq (addJobLog ops e (bp_jobId params) ''Performing backport in sandbox...'')
     (wf_bind (run_step e PerformBackport VPerform perform_of
         (\<lambda>cs. (pb (bp_installationId params) (bp_repository params) prDetails
                   (bp_targetBranch params) an, cs))) (\<lambda>backportResult.
     create_or_report ops e params backportResult))))))))))))))"

definition catch_block ::
  "'s store_ops \<Rightarrow> env \<Rightarrow> BackportParams \<Rightarrow> thrown \<Rightarrow> ('s, BackportResult) prog" where
  "catch_block ops e params err =
     wf_seq (addJobLog ops e (bp_jobId params) (''Workflow error: '' @ error_message err))
    (wf_seq (updateJob ops e (bp_jobId params)
               (no_updates \<lparr> u_status := Some Failed,
                             u_error := Some (Some (error_message err)) \<rparr>))
    (wf_throw err))"

definition backportPullRequest_with ::
  "perform \<Rightarrow> 's store_ops \<Rightarrow> env \<Rightarrow> BackportParams \<Rightarrow> ('s, BackportResult) prog" where
  "backportPullRequest_with pb ops e params =
     wf_try (try_block pb ops e params) (catch_block ops e params)"

definition backportPullRequest ::
  "'s store_ops \<Rightarrow> env \<Rightarrow> BackportParams \<Rightarrow> ('s, BackportResult) prog" where
  "backportPullRequest = backportPullRequest_with performBackport"

text \<open>A world in which no step has run: the store and the clock as given.\<close>

definition fresh_world :: "'s \<Rightarrow> nat \<Rightarrow> 's world" where
  "fresh_world s t =
     \<lparr> store = s, ticks = t, calls = [], recorded = Map.empty, attempts = (\<lambda>_. 0),
       budget = None \<rparr>"

subsection \<open>Example collaborators and runs\<close>

text \<open>
  A collaborator on which every request succeeds, except that \<^verbatim>\<open>getBranch\<close> answers 404
  for a branch that is not among the given ones, and 502 as long as fewer than the given
  number of \<^verbatim>\<open>getBranch\<close> requests have been made, and that the reaction to a comment
  fails with 500 if so chosen.
\<close>

definition is_GetBranch :: "call \<Rightarrow> bool" where
  "is_GetBranch c = (case c of GetBranch repo b \<Rightarrow> True | _ \<Rightarrow> False)"

definition example_pull :: pull where
  "example_pull = \<lparr> pull_title = ''Fix the parser'', pull_body = None, base_ref = ''main'',
     head_ref = ''fix-parser'', head_sha = ''abc123'', pull_merged = True,
     merge_commit_sha = Some ''def456'' \<rparr>"

definition example_github :: "string list \<Rightarrow> nat \<Rightarrow> bool \<Rightarrow> collaborator" where
  "example_github branches flaky react_fails =
     \<lparr> getInstallationOctokit = (\<lambda>cs i. None),
       createForIssueComment =
         (\<lambda>cs repo comment content.
            if react_fails then Some (RequestError 500 ''boom'') else None),
       pulls_get = (\<lambda>cs repo n. Inr example_pull),
       pulls_listCommits =
         (\<lambda>cs repo n. Inr [\<lparr> commit_sha = ''abc123'', commit_message = ''Fix the parser'' \<rparr>]),
       pulls_get_diff = (\<lambda>cs repo n. Inr ''diff --git a/x.go b/x.go''),
       getBranch =
         (\<lambda>cs repo b.
            if length (filter is_GetBranch cs) < flaky then Some (RequestError 502 ''Bad Gateway'')
            else if b \<in> set branches then None
            else Some (RequestError 404 ''Branch not found'')),
       pulls_create = (\<lambda>cs repo t h b d. Inr 101),
       createComment = (\<lambda>cs repo n b. None) \<rparr>"

definition example_env :: "collaborator \<Rightarrow> env" where
  "example_env c =
     \<lparr> clock = (\<lambda>n. 5000 + int n), toISOString = (\<lambda>t. ''T''), github = c,
       attempt_ceiling = 3 \<rparr>"

definition example_run :: "string \<Rightarrow> BackportParams" where
  "example_run target =
     \<lparr> bp_jobId = ''bp_1_a'', bp_installationId = 7, bp_repository = ''octo/app'',
       bp_prNumber = 42, bp_targetBranch = target, bp_commentId = 99 \<rparr>"


subsection \<open>Every state of the store during a run\<close>






text \<open>\<open>wp m Q w\<close>: the outcome and the world that \<open>m\<close> ends with from \<open>w\<close> satisfy \<open>Q\<close>.\<close>

definition wp :: "('s, 'a) prog \<Rightarrow> ('a outcome \<Rightarrow> 's world \<Rightarrow> bool) \<Rightarrow> 's world \<Rightarrow> bool" where
  "wp m Q w = (case m w of (out, w') \<Rightarrow> Q out w')"





subsection \<open>The requests of a run\<close>




subsection \<open>One run seen through a function of the store\<close>

text \<open>
  \<open>simulates f m n\<close>: run from the image under \<open>f\<close> of a world, \<open>n\<close> ends with the outcome of
  \<open>m\<close> and the image of the world that \<open>m\<close> ends with. With \<open>f = last\<close> it says that the
  newest state of the history is the store of the run that keeps no history.
\<close>

definition map_store :: "('s \<Rightarrow> 't) \<Rightarrow> 's world \<Rightarrow> 't world" where
  "map_store f w =
     \<lparr> store = f (store w), ticks = ticks w, calls = calls w, recorded = recorded w,
       attempts = attempts w, budget = budget w \<rparr>"

definition simulates :: "('s \<Rightarrow> 't) \<Rightarrow> ('s, 'a) prog \<Rightarrow> ('t, 'a) prog \<Rightarrow> bool" where
  "simulates f m n = (\<forall>w. n (map_store f w) = (fst (m w), map_store f (snd (m w))))"

text \<open>What a run that ends with \<open>out\<close> has made of a job that it found with the view \<open>v\<close>.\<close>

definition outcome_view :: "job_view \<Rightarrow> BackportResult outcome \<Rightarrow> job_view" where
  "outcome_view v out =
     (case out of
        Returned res \<Rightarrow>
          if br_success res
          then merge_view (no_updates \<lparr> u_status := Some Completed,
                                        u_resultPR := Some (br_resultPR res) \<rparr>) v
          else merge_view (no_updates \<lparr> u_status := Some Failed,
                                        u_error := Some (br_error res) \<rparr>) v
      | Threw x \<Rightarrow>
          merge_view (no_updates \<lparr> u_status := Some Failed,
                                   u_error := Some (Some (error_message x)) \<rparr>) v
      | Crashed \<Rightarrow> v)"

subsection \<open>Interruption and replay\<close>

text \<open>
  A run is interrupted by giving it a budget \<open>Some k\<close>; it then ends with \<open>Crashed\<close> at the
  \<open>(k+1)\<close>-th step that it would have to execute. It is replayed by running the workflow
  again, from its beginning, from the world that the interruption left, with no budget:
  the table, the job store and the requests made so far are those of the interrupted run.

  Two worlds are alike if they differ in the job store and the clock only.
\<close>

definition resume :: "'s world \<Rightarrow> 's world" where
  "resume w = w \<lparr> budget := None \<rparr>"

definition alike :: "'s world \<Rightarrow> 's world \<Rightarrow> bool" where
  "alike w w' =
     (calls w = calls w' \<and> recorded w = recorded w' \<and> attempts w = attempts w'
      \<and> budget w = budget w')"

definition same_result :: "'a outcome \<times> 's world \<Rightarrow> 'a outcome \<times> 's world \<Rightarrow> bool" where
  "same_result x y = (fst x = fst y \<and> alike (snd x) (snd y))"

text \<open>
  What is proved of every part of the workflow, to prove it of the whole:
  it does the same from worlds that are alike; without an interruption the budget makes
  no difference; it keeps what the table holds and does not call the body of a step that
  the table has a result for; run again with a table that holds at least what it left, it
  ends in the same way and changes nothing but the store and the clock; replayed after an
  interruption, it ends as the run without the interruption; without a budget it is not
  interrupted.
\<close>

definition store_blind :: "('s, 'a) prog \<Rightarrow> bool" where
  "store_blind m = (\<forall>w w'. alike w w' \<longrightarrow> same_result (m w) (m w'))"

definition budget_free :: "('s, 'a) prog \<Rightarrow> bool" where
  "budget_free m = (\<forall>w. fst (m w) \<noteq> Crashed \<longrightarrow> m (resume w) = (fst (m w), resume (snd (m w))))"

definition keeps_table :: "('s, 'a) prog \<Rightarrow> bool" where
  "keeps_table m =
     (\<forall>w s r. recorded w s = Some r \<longrightarrow>
        recorded (snd (m w)) s = Some r \<and> attempts (snd (m w)) s = attempts w s)"

definition memoised :: "('s, 'a) prog \<Rightarrow> bool" where
  "memoised m =
     (\<forall>w w2. fst (m w) \<noteq> Crashed \<and> recorded (snd (m w)) \<subseteq>\<^sub>m recorded w2
        \<longrightarrow> same_result (m w2) (fst (m w), w2))"

definition replays :: "('s, 'a) prog \<Rightarrow> bool" where
  "replays m =
     (\<forall>w. fst (m w) = Crashed \<longrightarrow> same_result (m (resume (snd (m w)))) (m (resume w)))"

definition uninterrupted :: "('s, 'a) prog \<Rightarrow> bool" where
  "uninterrupted m =
     (\<forall>w. budget w = None \<longrightarrow> fst (m w) \<noteq> Crashed \<and> budget (snd (m w)) = None)"

definition replayable :: "('s, 'a) prog \<Rightarrow> bool" where
  "replayable m =
     (store_blind m \<and> budget_free m \<and> keeps_table m \<and> memoised m \<and> replays m
      \<and> uninterrupted m)"

section \<open>Facts about the store\<close>

lemma own_prop_apply: "own_prop k x f = (if f = k then x else None)"
  by (cases x) (auto simp: own_prop_def)

lemma hgetall_hset:
  "hgetall (hset k kvs r) k' =
     (if k' = k then Some ((case hgetall r k of None \<Rightarrow> Map.empty | Some h \<Rightarrow> h) ++ kvs)
      else hgetall r k')"
  by (simp add: hgetall_def hset_def)



lemma updates_fields_apply:
  "updates_fields u ''id'' = None"
  "updates_fields u ''createdAt'' = None"
  "updates_fields u ''repository'' = map_option RStr (u_repository u)"
  "updates_fields u ''installationId'' = map_option RNum (u_installationId u)"
  "updates_fields u ''sourcePR'' = map_option RNum (u_sourcePR u)"
  "updates_fields u ''targetBranch'' = map_option RStr (u_targetBranch u)"
  "updates_fields u ''status'' = map_option (\<lambda>s. RStr (status_string s)) (u_status u)"
  "updates_fields u ''requestedBy'' = map_option RStr (u_requestedBy u)"
  "updates_fields u ''commentId'' = map_option RNum (u_commentId u)"
  "updates_fields u ''resultPR''
     = map_option (\<lambda>v. case v of None \<Rightarrow> RUndefined | Some n \<Rightarrow> RNum n) (u_resultPR u)"
  "updates_fields u ''error''
     = map_option (\<lambda>v. case v of None \<Rightarrow> RUndefined | Some e \<Rightarrow> RStr e) (u_error u)"
  by (simp_all add: updates_fields_def map_add_def own_prop_apply split: option.splits)



section \<open>updateJob is a merge\<close>






section \<open>addJobLog on an id without a record\<close>

text \<open>
  Claim C10 says that \<^verbatim>\<open>addJobLog\<close> on an id that has no record creates none, so that
  \<^verbatim>\<open>getJob\<close> still returns \<^verbatim>\<open>null\<close>. The in-memory store guards the write with
  \<^verbatim>\<open>if (job)\<close>. The Redis store does not: on the empty database, after
  \<^verbatim>\<open>addJobLog("ghost", "hello")\<close>, \<^verbatim>\<open>getJob("ghost")\<close> returns a record that has an
  \<^verbatim>\<open>updatedAt\<close>, an invalid \<^verbatim>\<open>createdAt\<close>, the log line and no other field.
\<close>


theorem addJobLog_redis_creates_record:
  "getJob_redis ''ghost'' empty_redis = None
   \<and> getJob_redis ''ghost'' (addJobLog_redis (\<lambda>t. ''T'') 1 2 ''ghost'' ''hello'' empty_redis)
       = Some \<lparr> data = [''updatedAt'' \<mapsto> RDate 2], r_createdAt = None, r_updatedAt = Some 2,
                 r_logs = [''[T] hello''] \<rparr>"
  by (simp add: getJob_redis_def addJobLog_redis_def hgetall_def hset_def rpush_def
      lrange_all_def empty_redis_def jobFromRedis_def new_Date_def log_entry_def Let_def
      JOB_PREFIX_def JOB_LOGS_SUFFIX_def)

lemma addJobLog_mem_absent:
  "getJob_mem i jobs = None \<Longrightarrow> addJobLog_mem fmt now1 now2 i message jobs = jobs"
  by (simp add: addJobLog_mem_def getJob_mem_def)

lemma addJobLog_redis_absent:
  "getJob_redis i (addJobLog_redis fmt now1 now2 i message r) \<noteq> None"
  by (simp add: getJob_redis_def addJobLog_redis_def hgetall_hset Let_def)

section \<open>listJobs\<close>

lemma slice0_pos: "0 < n \<Longrightarrow> slice0 n xs = take (nat n) xs"
  by (simp add: slice0_def)

lemma sorted_desc_sort_key:
  "sorted_wrt (\<lambda>a b. createdAt b \<le> createdAt a) (sort_key (\<lambda>j. - createdAt j) xs)"
proof -
  have "sorted (map (\<lambda>j. - createdAt j) (sort_key (\<lambda>j. - createdAt j) xs))"
    by (rule sorted_sort_key)
  then show ?thesis
    by (simp add: sorted_map)
qed

lemma sorted_wrt_slice0: "sorted_wrt P xs \<Longrightarrow> sorted_wrt P (slice0 n xs)"
  by (simp add: slice0_def sorted_wrt_take)

lemma listJobs_mem_unlimited:
  "\<not> truthy_number (o_limit opts) \<Longrightarrow>
   listJobs_mem opts jobs
     = sort_key (\<lambda>j. - createdAt j)
         (filter (\<lambda>j. selected opts (repository j) (status j)) (map snd jobs))"
  by (auto simp: listJobs_mem_def selected_def Let_def intro!: arg_cong [where f = "sort_key _"]
      filter_cong)

lemma listJobs_mem_limited:
  "listJobs_mem opts jobs
     = (if truthy_number (o_limit opts)
        then slice0 (the (o_limit opts)) (listJobs_mem (opts \<lparr> o_limit := None \<rparr>) jobs)
        else listJobs_mem (opts \<lparr> o_limit := None \<rparr>) jobs)"
  by (simp add: listJobs_mem_def Let_def truthy_number_def)

lemma jobToRedis_createdAt: "jobToRedis job ''createdAt'' = Some (RDate (createdAt job))"
  by (simp add: jobToRedis_def map_add_def own_prop_apply)

lemma reachable_index:
  "reachable r \<Longrightarrow> zsets r JOB_INDEX = Some z \<Longrightarrow>
   distinct (map fst z) \<and>
   (\<forall>(m, s) \<in> set z. \<exists>d. hashes r (JOB_PREFIX @ m) = Some d \<and> d ''createdAt'' = Some (RDate s))"
proof (induction arbitrary: z rule: reachable.induct)
  case init
  then show ?case by (simp add: empty_redis_def)
next
  case (create r gid now params)
  define z0 where "z0 = (case zsets r JOB_INDEX of None \<Rightarrow> [] | Some z \<Rightarrow> z)"
  have ih: "distinct (map fst z0) \<and>
    (\<forall>(m, s) \<in> set z0. \<exists>d. hashes r (JOB_PREFIX @ m) = Some d \<and> d ''createdAt'' = Some (RDate s))"
    using create.IH by (cases "zsets r JOB_INDEX") (simp_all add: z0_def)
  from create.prems have z: "z = AList.update gid now z0"
    by (simp add: createJob_redis_def Let_def zadd_def hset_def z0_def)
  have d: "distinct (map fst z)"
    using ih by (simp add: z AList.distinct_update)
  have h: "\<exists>d. hashes (snd (createJob_redis gid now params r)) (JOB_PREFIX @ m) = Some d
               \<and> d ''createdAt'' = Some (RDate s)"
    if ms: "(m, s) \<in> set z" for m s
  proof -
    from ms d have look: "map_of z m = Some s" by simp
    show ?thesis
    proof (cases "m = gid")
      case True
      with look have "s = now" by (simp add: z AList.update_conv')
      with True show ?thesis
        by (simp add: createJob_redis_def Let_def zadd_def hset_def map_add_def
            jobToRedis_createdAt)
    next
      case False
      with look have "map_of z0 m = Some s" by (simp add: z AList.update_conv')
      then have "(m, s) \<in> set z0" by (rule map_of_SomeD)
      with ih obtain d where "hashes r (JOB_PREFIX @ m) = Some d" "d ''createdAt'' = Some (RDate s)"
        by blast
      with False show ?thesis
        by (simp add: createJob_redis_def Let_def zadd_def hset_def JOB_PREFIX_def)
    qed
  qed
  from d h show ?case by blast
next
  case (update r now i updates)
  show ?case
  proof (cases "snd (updateJob_redis now i updates r) = r")
    case True
    with update show ?thesis by simp
  next
    case False
    then obtain existing where ex: "hashes r (JOB_PREFIX @ i) = Some existing"
      and r': "snd (updateJob_redis now i updates r)
                = hset (JOB_PREFIX @ i)
                    ((existing ++ updates_fields updates)(''updatedAt'' \<mapsto> RDate now)) r"
      by (auto simp: updateJob_redis_def hgetall_def Let_def split: option.splits if_splits)
    from update.prems have zr: "zsets r JOB_INDEX = Some z"
      by (simp add: r' hset_def)
    note ih = update.IH [OF zr]
    have h: "\<exists>d. hashes (snd (updateJob_redis now i updates r)) (JOB_PREFIX @ m) = Some d
               \<and> d ''createdAt'' = Some (RDate s)"
      if ms: "(m, s) \<in> set z" for m s
    proof -
      from ih ms obtain d where d: "hashes r (JOB_PREFIX @ m) = Some d"
        "d ''createdAt'' = Some (RDate s)"
        by blast
      show ?thesis
        using d ex
        by (cases "m = i")
          (simp_all add: r' hset_def map_add_def updates_fields_apply JOB_PREFIX_def)
    qed
    from ih h show ?thesis by blast
  qed
next
  case (log r fmt now1 now2 i message)
  from log.prems have zr: "zsets r JOB_INDEX = Some z"
    by (simp add: addJobLog_redis_def Let_def hset_def rpush_def)
  note ih = log.IH [OF zr]
  have h: "\<exists>d. hashes (addJobLog_redis fmt now1 now2 i message r) (JOB_PREFIX @ m) = Some d
             \<and> d ''createdAt'' = Some (RDate s)"
    if ms: "(m, s) \<in> set z" for m s
  proof -
    from ih ms obtain d where d: "hashes r (JOB_PREFIX @ m) = Some d"
      "d ''createdAt'' = Some (RDate s)"
      by blast
    show ?thesis
      using d
      by (cases "m = i")
        (simp_all add: addJobLog_redis_def Let_def hset_def rpush_def map_add_def JOB_PREFIX_def)
  qed
  from ih h show ?case by blast
qed


lemma zrange_rev_scores:
  assumes "zsets r JOB_INDEX = Some z"
  shows "\<exists>zs. zrange_rev r JOB_INDEX = map fst zs \<and> set zs = set z
              \<and> sorted_wrt (\<lambda>a b. snd b \<le> snd a) zs"
proof -
  define asc where "asc = sort_key (\<lambda>(m, s). (s, m)) z"
  have "sorted (map (\<lambda>(m, s). (s, m)) asc)"
    unfolding asc_def by (rule sorted_sort_key)
  then have "sorted_wrt (\<lambda>a b. (case a of (m, s) \<Rightarrow> (s, m)) \<le> (case b of (m, s) \<Rightarrow> (s, m))) asc"
    by (simp add: sorted_map)
  then have "sorted_wrt (\<lambda>a b. snd a \<le> snd b) asc"
    by (rule sorted_wrt_mono_rel [rotated]) (auto simp: less_eq_prod_def)
  then have "sorted_wrt (\<lambda>a b. snd b \<le> snd a) (rev asc)"
    by (simp add: sorted_wrt_rev)
  moreover have "set (rev asc) = set z"
    by (simp add: asc_def)
  moreover have "zrange_rev r JOB_INDEX = map fst (rev asc)"
    using assms by (simp add: zrange_rev_def asc_def)
  ultimately show ?thesis by blast
qed

lemma zrange_rev_empty: "zsets r JOB_INDEX = None \<Longrightarrow> zrange_rev r JOB_INDEX = []"
  by (simp add: zrange_rev_def)

lemma reachable_getJob:
  assumes "reachable r" "zsets r JOB_INDEX = Some z" "(m, s) \<in> set z"
  shows "\<exists>j. getJob_redis m r = Some j \<and> r_createdAt j = Some s"
proof -
  from reachable_index [OF assms(1,2)] assms(3)
  obtain d where d: "hashes r (JOB_PREFIX @ m) = Some d" "d ''createdAt'' = Some (RDate s)"
    by blast
  then have "dom d \<noteq> {}" by auto
  with d show ?thesis
    by (simp add: getJob_redis_def hgetall_def jobFromRedis_def new_Date_def)
qed

text \<open>The jobs of the index, newest first, before the filters and the limit.\<close>

lemma indexed_jobs_sorted:
  assumes "reachable r"
  shows "sorted_wrt (\<lambda>a b. \<exists>s t. r_createdAt a = Some s \<and> r_createdAt b = Some t \<and> t \<le> s)
           (map the (filter (\<lambda>j. j \<noteq> None) (map (\<lambda>i. getJob_redis i r) (zrange_rev r JOB_INDEX))))"
proof (cases "zsets r JOB_INDEX")
  case None
  then show ?thesis by (simp add: zrange_rev_empty)
next
  case (Some z)
  from zrange_rev_scores [OF Some] obtain zs where
    ids: "zrange_rev r JOB_INDEX = map fst zs" and mem: "set zs = set z"
    and desc: "sorted_wrt (\<lambda>a b. snd b \<le> snd a) zs"
    by blast
  have job: "\<exists>j. getJob_redis (fst p) r = Some j \<and> r_createdAt j = Some (snd p)"
    if "p \<in> set zs" for p
    using that reachable_getJob [OF assms Some, of "fst p" "snd p"] mem by simp
  have all: "filter (\<lambda>j. j \<noteq> None) (map (\<lambda>p. getJob_redis (fst p) r) zs)
               = map (\<lambda>p. getJob_redis (fst p) r) zs"
    by (rule filter_True) (use job in auto)
  have "sorted_wrt (\<lambda>p q. \<exists>s t. r_createdAt (the (getJob_redis (fst p) r)) = Some s
            \<and> r_createdAt (the (getJob_redis (fst q) r)) = Some t \<and> t \<le> s) zs"
    using desc
  proof (rule sorted_wrt_mono_rel [rotated])
    fix p q assume "p \<in> set zs" "q \<in> set zs" "snd q \<le> snd p"
    with job [of p] job [of q]
    show "\<exists>s t. r_createdAt (the (getJob_redis (fst p) r)) = Some s
            \<and> r_createdAt (the (getJob_redis (fst q) r)) = Some t \<and> t \<le> s"
      by auto
  qed
  then have "sorted_wrt (\<lambda>a b. \<exists>s t. r_createdAt a = Some s \<and> r_createdAt b = Some t \<and> t \<le> s)
           (map (\<lambda>p. the (getJob_redis (fst p) r)) zs)"
    by (simp only: sorted_wrt_map)
  moreover have "map the (filter (\<lambda>j. j \<noteq> None)
                    (map (\<lambda>i. getJob_redis i r) (zrange_rev r JOB_INDEX)))
                 = map (\<lambda>p. the (getJob_redis (fst p) r)) zs"
    by (simp only: ids all map_map o_def)
  ultimately show ?thesis by (simp only:)
qed

lemma listJobs_redis_eq:
  "listJobs_redis opts r =
     slice0 (if truthy_number (o_limit opts) then the (o_limit opts) else 50)
       (filter (\<lambda>j. (truthy_string (o_repository opts) \<longrightarrow>
                       data j ''repository'' = map_option RStr (o_repository opts))
                   \<and> (o_status opts \<noteq> None \<longrightarrow>
                       data j ''status''
                         = map_option (\<lambda>s. RStr (status_string s)) (o_status opts)))
          (map the (filter (\<lambda>j. j \<noteq> None)
             (map (\<lambda>i. getJob_redis i r) (zrange_rev r JOB_INDEX)))))"
  by (auto simp: listJobs_redis_def Let_def slice0_def intro!: arg_cong [where f = "take _"]
      filter_cong)

lemma listJobs_redis_sorted:
  "reachable r \<Longrightarrow>
   sorted_wrt (\<lambda>a b. \<exists>s t. r_createdAt a = Some s \<and> r_createdAt b = Some t \<and> t \<le> s)
     (listJobs_redis opts r)"
  unfolding listJobs_redis_eq
  by (intro sorted_wrt_slice0 sorted_wrt_filter indexed_jobs_sorted)

lemma listJobs_redis_eq':
  "listJobs_redis opts r =
     slice0 (if truthy_number (o_limit opts) then the (o_limit opts) else 50)
       (filter (selected_redis opts)
          (map the (filter (\<lambda>j. j \<noteq> None)
             (map (\<lambda>i. getJob_redis i r) (zrange_rev r JOB_INDEX)))))"
  unfolding listJobs_redis_eq selected_redis_def ..

lemma selected_redis_limit [simp]:
  "selected_redis (opts \<lparr> o_limit := l \<rparr>) = selected_redis opts"
  by (rule ext) (simp add: selected_redis_def)

text \<open>
  Claim C9, as amended. In both stores the listing is ordered by \<^verbatim>\<open>createdAt\<close>, newest
  first, whatever the order of insertion, and the two filters are applied together, each
  by equality; a repository filter that is the empty string counts as not given. In the
  in-memory store a listing without a limit, or with the limit 0, holds exactly the
  selected jobs, and a positive limit \<open>n\<close> gives the first \<open>n\<close> of that listing. In the
  Redis store (in a state its own operations reach) every listed job is a selected job
  of the index and every selected job of the index is listed under a large enough limit;
  a smaller positive limit gives a prefix of the listing under a larger one; without a
  limit, or with the limit 0, the limit is 50.
\<close>

theorem listJobs_newest_first:
  "sorted_wrt (\<lambda>a b. createdAt b \<le> createdAt a) (listJobs_mem opts jobs)
   \<and> (\<not> truthy_number (o_limit opts) \<longrightarrow>
        mset (listJobs_mem opts jobs)
          = mset (filter (\<lambda>j. selected opts (repository j) (status j)) (map snd jobs)))
   \<and> (\<forall>n. 0 < n \<longrightarrow>
        listJobs_mem (opts \<lparr> o_limit := Some n \<rparr>) jobs
          = take (nat n) (listJobs_mem (opts \<lparr> o_limit := None \<rparr>) jobs))
   \<and> (reachable r \<longrightarrow>
        sorted_wrt (\<lambda>a b. \<exists>s t. r_createdAt a = Some s \<and> r_createdAt b = Some t \<and> t \<le> s)
          (listJobs_redis opts r))
   \<and> (\<forall>j \<in> set (listJobs_redis opts r).
        selected_redis opts j \<and> (\<exists>i \<in> set (zrange_rev r JOB_INDEX). getJob_redis i r = Some j))
   \<and> (\<forall>i j. i \<in> set (zrange_rev r JOB_INDEX) \<and> getJob_redis i r = Some j \<and> selected_redis opts j
        \<longrightarrow> (\<exists>n. j \<in> set (listJobs_redis (opts \<lparr> o_limit := Some n \<rparr>) r)))
   \<and> (\<forall>n m. 0 < n \<and> n \<le> m \<longrightarrow>
        listJobs_redis (opts \<lparr> o_limit := Some n \<rparr>) r
          = take (nat n) (listJobs_redis (opts \<lparr> o_limit := Some m \<rparr>) r))
   \<and> (\<not> truthy_number (o_limit opts) \<longrightarrow>
        listJobs_redis opts r = listJobs_redis (opts \<lparr> o_limit := Some 50 \<rparr>) r)"
  (is "?m1 \<and> ?m2 \<and> ?m3 \<and> ?r1 \<and> ?r2 \<and> ?r3 \<and> ?r4 \<and> ?r5")
proof (intro conjI)
  show ?m1
    unfolding listJobs_mem_limited [of opts]
    by (simp add: listJobs_mem_unlimited truthy_number_def sorted_wrt_slice0
        sorted_desc_sort_key)
  show ?m2
    by (simp add: listJobs_mem_unlimited)
  show ?m3
    by (simp add: listJobs_mem_limited [of "opts \<lparr> o_limit := Some n \<rparr>" for n]
        truthy_number_def slice0_pos)
  show ?r1
    by (rule impI) (rule listJobs_redis_sorted)
  define every where "every = map the (filter (\<lambda>j. j \<noteq> None)
             (map (\<lambda>i. getJob_redis i r) (zrange_rev r JOB_INDEX)))"
  have every: "j \<in> set every \<longleftrightarrow> (\<exists>i \<in> set (zrange_rev r JOB_INDEX). getJob_redis i r = Some j)"
    for j
    by (auto simp: every_def image_iff)
  have eq: "listJobs_redis opts r
              = slice0 (if truthy_number (o_limit opts) then the (o_limit opts) else 50)
                  (filter (selected_redis opts) every)"
    unfolding every_def by (rule listJobs_redis_eq')
  have eqn: "listJobs_redis (opts \<lparr> o_limit := Some n \<rparr>) r
               = slice0 (if n \<noteq> 0 then n else 50) (filter (selected_redis opts) every)" for n
    unfolding every_def using listJobs_redis_eq' [of "opts \<lparr> o_limit := Some n \<rparr>" r]
    by (simp add: truthy_number_def)
  have sub: "set (slice0 n xs) \<subseteq> set xs" for n and xs :: "RedisJob list"
    by (auto simp: slice0_def dest: in_set_takeD)
  show ?r2
  proof
    fix j assume "j \<in> set (listJobs_redis opts r)"
    then have "j \<in> set (filter (selected_redis opts) every)"
      unfolding eq using sub by blast
    then show "selected_redis opts j
               \<and> (\<exists>i \<in> set (zrange_rev r JOB_INDEX). getJob_redis i r = Some j)"
      using every by simp
  qed
  show ?r3
  proof (intro allI impI)
    fix i j
    assume a: "i \<in> set (zrange_rev r JOB_INDEX) \<and> getJob_redis i r = Some j \<and> selected_redis opts j"
    define n where "n = int (length every) + 1"
    have "j \<in> set (filter (selected_redis opts) every)"
      using a every by auto
    moreover have "length (filter (selected_redis opts) every) \<le> nat n"
      using length_filter_le [of "selected_redis opts" every] unfolding n_def by linarith
    then have "slice0 n (filter (selected_redis opts) every) = filter (selected_redis opts) every"
      by (simp add: slice0_def n_def)
    ultimately have "j \<in> set (listJobs_redis (opts \<lparr> o_limit := Some n \<rparr>) r)"
      by (simp add: eqn n_def)
    then show "\<exists>n. j \<in> set (listJobs_redis (opts \<lparr> o_limit := Some n \<rparr>) r)" ..
  qed
  show ?r4
    by (auto simp: eqn slice0_pos min_def)
  show ?r5
    by (simp add: eq eqn)
qed

lemma example_store2_jobs:
  "map (\<lambda>j. (id' j, createdAt j, repository j, status j)) (map snd example_store2)
     = [(''bp_1_a'', 1000, ''octo/app'', Pending), (''bp_2_b'', 2000, ''octo/app'', Pending)]"
  by (simp add: example_store2_def example_store_def createJob_mem_def example_params_def Let_def)

lemma example_listing_mem:
  "map id' (listJobs_mem no_options example_store2) = [''bp_2_b'', ''bp_1_a'']"
  by (simp add: listJobs_mem_def no_options_def truthy_string_def truthy_number_def Let_def
      example_store2_def example_store_def createJob_mem_def example_params_def)

lemma example_index:
  "zsets example_redis2 JOB_INDEX = Some [(''bp_1_a'', 1000), (''bp_2_b'', 2000)]"
  by (simp add: example_redis2_def example_redis_def createJob_redis_def zadd_def hset_def
      empty_redis_def Let_def JOB_INDEX_def)

lemma example_zrange: "zrange_rev example_redis2 JOB_INDEX = [''bp_2_b'', ''bp_1_a'']"
  by (simp add: zrange_rev_def example_index)

lemma example_reachable: "reachable example_redis2"
  unfolding example_redis2_def example_redis_def
  by (intro reachable.create reachable.init)

lemma example_getJob:
  "\<exists>j. getJob_redis ''bp_2_b'' example_redis2 = Some j \<and> r_createdAt j = Some 2000"
  "\<exists>j. getJob_redis ''bp_1_a'' example_redis2 = Some j \<and> r_createdAt j = Some 1000"
  using reachable_getJob [OF example_reachable example_index] by simp_all

lemma example_listing_redis:
  "map r_createdAt (listJobs_redis (no_options \<lparr> o_limit := l \<rparr>) example_redis2)
     = map r_createdAt (slice0 (if truthy_number l then the l else 50)
         [the (getJob_redis ''bp_2_b'' example_redis2), the (getJob_redis ''bp_1_a'' example_redis2)])"
  using example_getJob
  by (auto simp: listJobs_redis_eq' example_zrange selected_redis_def no_options_def
      truthy_string_def)


theorem listJobs_newest_first_witness:
  "map id' (listJobs_mem no_options example_store2) = [''bp_2_b'', ''bp_1_a'']
   \<and> sorted_wrt (\<lambda>a b. createdAt b \<le> createdAt a) (listJobs_mem no_options example_store2)
   \<and> truthy_number (o_limit no_options) = False
   \<and> mset (listJobs_mem no_options example_store2) = mset (map snd example_store2)
   \<and> listJobs_mem (no_options \<lparr> o_limit := Some 1 \<rparr>) example_store2
       = take 1 (listJobs_mem (no_options \<lparr> o_limit := None \<rparr>) example_store2)
   \<and> reachable example_redis2
   \<and> map r_createdAt (listJobs_redis no_options example_redis2) = [Some 2000, Some 1000]
   \<and> sorted_wrt (\<lambda>a b. \<exists>s t. r_createdAt a = Some s \<and> r_createdAt b = Some t \<and> t \<le> s)
        (listJobs_redis no_options example_redis2)
   \<and> (getJob_redis ''bp_2_b'' example_redis2
          = Some (hd (listJobs_redis no_options example_redis2))
        \<or> getJob_redis ''bp_1_a'' example_redis2
          = Some (hd (listJobs_redis no_options example_redis2)))
   \<and> (\<exists>n. the (getJob_redis ''bp_1_a'' example_redis2)
              \<in> set (listJobs_redis (no_options \<lparr> o_limit := Some n \<rparr>) example_redis2))
   \<and> listJobs_redis (no_options \<lparr> o_limit := Some 1 \<rparr>) example_redis2
       = take 1 (listJobs_redis (no_options \<lparr> o_limit := Some 2 \<rparr>) example_redis2)
   \<and> listJobs_redis no_options example_redis2
       = listJobs_redis (no_options \<lparr> o_limit := Some 50 \<rparr>) example_redis2"
proof -
  note T = listJobs_newest_first [of no_options example_store2 example_redis2]
  have nl: "\<not> truthy_number (o_limit no_options)"
    by (simp add: no_options_def truthy_number_def)
  have all: "selected no_options repo st" for repo st
    by (simp add: selected_def no_options_def truthy_string_def)
  have all_redis: "selected_redis no_options j" for j
    by (simp add: selected_redis_def no_options_def truthy_string_def)
  have m2: "mset (listJobs_mem no_options example_store2) = mset (map snd example_store2)"
    using T [THEN conjunct2, THEN conjunct1] nl by (simp add: all)
  have m3: "listJobs_mem (no_options \<lparr> o_limit := Some 1 \<rparr>) example_store2
       = take 1 (listJobs_mem (no_options \<lparr> o_limit := None \<rparr>) example_store2)"
    using T [THEN conjunct2, THEN conjunct2, THEN conjunct1, rule_format, of 1] by simp
  note rest = T [THEN conjunct2, THEN conjunct2, THEN conjunct2]
  have r1: "sorted_wrt (\<lambda>a b. \<exists>s t. r_createdAt a = Some s \<and> r_createdAt b = Some t \<and> t \<le> s)
        (listJobs_redis no_options example_redis2)"
    using rest [THEN conjunct1] example_reachable by (rule mp)
  have dates: "map r_createdAt (listJobs_redis no_options example_redis2) = [Some 2000, Some 1000]"
    using example_listing_redis [of None] example_getJob
    by (auto simp: no_options_def truthy_number_def slice0_def)
  then have "listJobs_redis no_options example_redis2 \<noteq> []"
    by auto
  then have "hd (listJobs_redis no_options example_redis2)
               \<in> set (listJobs_redis no_options example_redis2)"
    by (rule hd_in_set)
  with rest [THEN conjunct2, THEN conjunct1]
  have r2: "getJob_redis ''bp_2_b'' example_redis2
          = Some (hd (listJobs_redis no_options example_redis2))
        \<or> getJob_redis ''bp_1_a'' example_redis2
          = Some (hd (listJobs_redis no_options example_redis2))"
    by (auto simp: example_zrange)
  obtain j where j: "getJob_redis ''bp_1_a'' example_redis2 = Some j"
    using example_getJob(2) by blast
  have r3: "\<exists>n. the (getJob_redis ''bp_1_a'' example_redis2)
              \<in> set (listJobs_redis (no_options \<lparr> o_limit := Some n \<rparr>) example_redis2)"
    using rest [THEN conjunct2, THEN conjunct2, THEN conjunct1, rule_format, of "''bp_1_a''" j]
    by (simp add: j example_zrange all_redis)
  have r4: "listJobs_redis (no_options \<lparr> o_limit := Some 1 \<rparr>) example_redis2
       = take 1 (listJobs_redis (no_options \<lparr> o_limit := Some 2 \<rparr>) example_redis2)"
    using rest [THEN conjunct2, THEN conjunct2, THEN conjunct2, THEN conjunct1, rule_format,
        of 1 2]
    by simp
  have r5: "listJobs_redis no_options example_redis2
       = listJobs_redis (no_options \<lparr> o_limit := Some 50 \<rparr>) example_redis2"
    using rest [THEN conjunct2, THEN conjunct2, THEN conjunct2, THEN conjunct2] nl by (rule mp)
  show ?thesis
    by (intro conjI) (rule example_listing_mem T [THEN conjunct1] nl [THEN eq_False [THEN iffD2]]
        m2 m3 example_reachable dates r1 r2 r3 r4 r5)+
qed

text \<open>
  Claim C9 as stated fails for the limit 0, which \<^verbatim>\<open>if (options?.limit)\<close> and
  \<^verbatim>\<open>options?.limit || 50\<close> take for no limit: with two jobs stored, the listing under the
  limit 0 is not the first 0 entries. It also fails for the repository filter
  \<^verbatim>\<open>""\<close>, which \<^verbatim>\<open>if (options?.repository)\<close> skips: jobs of the repository
  \<^verbatim>\<open>octo/app\<close> are listed.
\<close>

theorem listJobs_limit_zero_counterexample:
  "listJobs_mem (no_options \<lparr> o_limit := Some 0 \<rparr>) example_store2
     \<noteq> take (nat 0) (listJobs_mem no_options example_store2)
   \<and> map r_createdAt (listJobs_redis (no_options \<lparr> o_limit := Some 0 \<rparr>) example_redis2)
     \<noteq> map r_createdAt (take (nat 0) (listJobs_redis (no_options \<lparr> o_limit := Some 50 \<rparr>)
           example_redis2))
   \<and> map repository (listJobs_mem (no_options \<lparr> o_repository := Some [] \<rparr>) example_store2)
     = [''octo/app'', ''octo/app'']"
proof (intro conjI)
  have "map id' (listJobs_mem (no_options \<lparr> o_limit := Some 0 \<rparr>) example_store2)
          = [''bp_2_b'', ''bp_1_a'']"
    by (simp add: listJobs_mem_def no_options_def truthy_string_def truthy_number_def Let_def
        example_store2_def example_store_def createJob_mem_def example_params_def)
  then show "listJobs_mem (no_options \<lparr> o_limit := Some 0 \<rparr>) example_store2
     \<noteq> take (nat 0) (listJobs_mem no_options example_store2)"
    by auto
  have "map r_createdAt (listJobs_redis (no_options \<lparr> o_limit := Some 0 \<rparr>) example_redis2)
          = [Some 2000, Some 1000]"
    using example_listing_redis [of "Some 0"] example_getJob
    by (auto simp: truthy_number_def slice0_def)
  then show "map r_createdAt (listJobs_redis (no_options \<lparr> o_limit := Some 0 \<rparr>) example_redis2)
     \<noteq> map r_createdAt (take (nat 0) (listJobs_redis (no_options \<lparr> o_limit := Some 50 \<rparr>)
           example_redis2))"
    by simp
  show "map repository (listJobs_mem (no_options \<lparr> o_repository := Some [] \<rparr>) example_store2)
     = [''octo/app'', ''octo/app'']"
    by (simp add: listJobs_mem_def no_options_def truthy_string_def truthy_number_def Let_def
        example_store2_def example_store_def createJob_mem_def example_params_def)
qed

section \<open>Running the workflow\<close>

lemma wf_seq_apply: "wf_seq m n w = wf_bind m (\<lambda>_. n) w"
  by (simp add: wf_seq_def)

lemma wf_bind_Returned: "m w = (Returned a, w') \<Longrightarrow> wf_bind m f w = f a w'"
  and wf_bind_Threw: "m w = (Threw x, w') \<Longrightarrow> wf_bind m f w = (Threw x, w')"
  and wf_bind_Crashed: "m w = (Crashed, w') \<Longrightarrow> wf_bind m f w = (Crashed, w')"
  by (simp_all add: wf_bind_def)

lemma wf_try_Returned: "m w = (Returned a, w') \<Longrightarrow> wf_try m h w = (Returned a, w')"
  and wf_try_Threw: "m w = (Threw x, w') \<Longrightarrow> wf_try m h w = h x w'"
  and wf_try_Crashed: "m w = (Crashed, w') \<Longrightarrow> wf_try m h w = (Crashed, w')"
  by (simp_all add: wf_try_def)



lemma run_attempts_final:
  assumes "case fst (fn (calls w)) of Inr v \<Rightarrow> True | Inl x \<Rightarrow> is_fatal x"
  shows "run_attempts n s fn w = attempt s fn w"
  using assms by (cases n) (auto simp: attempt_def split: prod.splits sum.splits)

lemma execute_once:
  assumes "recorded w s = None" "budget w \<noteq> Some 0"
    and "case fst (fn (calls w)) of Inr v \<Rightarrow> True | Inl x \<Rightarrow> is_fatal x"
  shows "execute e s fn w =
           (outcome_of (fst (fn (calls w))),
            w \<lparr> calls := snd (fn (calls w)), attempts := (attempts w)(s := Suc (attempts w s)),
                recorded := (recorded w)(s \<mapsto> fst (fn (calls w))),
                budget := map_option (\<lambda>b. b - 1) (budget w) \<rparr>)"
proof -
  have "run_attempts (attempt_ceiling e - 1) s fn w = attempt s fn w"
    by (rule run_attempts_final) (rule assms(3))
  then show ?thesis
    using assms(1,2) by (simp add: execute_def attempt_def split: prod.splits)
qed

text \<open>
  A step that has no recorded result, and whose body returns or fails fatally at the first
  attempt.
\<close>

lemma run_step_once:
  assumes "recorded w s = None" "budget w \<noteq> Some 0"
    and "case fst (fn (calls w)) of Inr v \<Rightarrow> proj (wrap v) = Some v | Inl x \<Rightarrow> is_fatal x"
  shows "run_step e s wrap proj fn w =
           (outcome_of (fst (fn (calls w))),
            w \<lparr> calls := snd (fn (calls w)), attempts := (attempts w)(s := Suc (attempts w s)),
                recorded := (recorded w)(s \<mapsto> map_sum id wrap (fst (fn (calls w)))),
                budget := map_option (\<lambda>b. b - 1) (budget w) \<rparr>)"
proof -
  let ?fn = "io_bind fn (\<lambda>a. io_return (wrap a))"
  have body: "?fn (calls w) = (map_sum id wrap (fst (fn (calls w))), snd (fn (calls w)))"
    by (cases "fn (calls w)") (auto simp: io_bind_def io_return_def split: sum.splits)
  have "case fst (?fn (calls w)) of Inr v \<Rightarrow> True | Inl x \<Rightarrow> is_fatal x"
    using assms(3) by (simp add: body split: sum.splits)
  then have "execute e s ?fn w =
           (outcome_of (fst (?fn (calls w))),
            w \<lparr> calls := snd (?fn (calls w)), attempts := (attempts w)(s := Suc (attempts w s)),
                recorded := (recorded w)(s \<mapsto> fst (?fn (calls w))),
                budget := map_option (\<lambda>b. b - 1) (budget w) \<rparr>)"
    by (rule execute_once [OF assms(1,2)])
  then show ?thesis
    using assms(3) unfolding body
    by (cases "fst (fn (calls w))")
      (simp_all add: run_step_def wf_bind_def outcome_of_def wf_return_def)
qed

lemmas io_defs = io_bind_def io_return_def io_throw_def io_catch_def request_def
  request_unit_def octokit_def

lemmas wf_run = wf_seq_apply wf_bind_def wf_try_def wf_return_def wf_throw_def outcome_of_def
  addJobLog_def updateJob_def

lemmas projections = any_value_def details_of_def analysis_of_def perform_of_def number_of_def

section \<open>Both stores track the view\<close>

lemma read_status_string [simp]: "read_status (Some (RStr (status_string x))) = Some x"
  by (cases x) (simp_all add: read_status_def status_string_def)

lemma tracks_mem: "tracks mem_ops view_mem"
  unfolding tracks_def
proof (intro conjI allI impI)
  fix fmt a b i msg s j assume "view_mem s i \<noteq> None"
  show "view_mem (addJobLog_op mem_ops fmt a b i msg s) j = view_mem s j"
    by (cases "map_of s i")
      (simp_all add: mem_ops_def view_mem_def getJob_mem_def addJobLog_mem_def
        AList.update_conv')
next
  fix now i u s j
  show "view_mem (updateJob_op mem_ops now i u s) j
          = (if j = i then map_option (merge_view u) (view_mem s j) else view_mem s j)"
    by (cases "map_of s i")
      (simp_all add: mem_ops_def view_mem_def getJob_mem_def updateJob_mem_def Let_def
        AList.update_conv' spread_updates_def merge_view_def with_logs_def JobUpdates.defs
        MemUpdates.defs split: option.splits)
qed


lemma view_redis_hash:
  "view_redis r i =
     (case hgetall r (JOB_PREFIX @ i) of
        None \<Rightarrow> None
      | Some d \<Rightarrow>
          if dom d = {} then None
          else Some (read_status (d ''status''), read_number (d ''resultPR''),
                     read_string (d ''error'')))"
  by (simp add: view_redis_def getJob_redis_def jobFromRedis_def split: option.splits)

lemma hgetall_rpush: "hgetall (rpush k v r) k' = hgetall r k'"
  by (simp add: hgetall_def rpush_def)

lemma hgetall_addJobLog:
  "hgetall (addJobLog_redis fmt a b i msg r) k =
     (if k = JOB_PREFIX @ i
      then Some ((case hgetall r k of None \<Rightarrow> Map.empty | Some h \<Rightarrow> h)(''updatedAt'' \<mapsto> RDate b))
      else hgetall r k)"
  by (simp add: addJobLog_redis_def Let_def hgetall_hset hgetall_rpush)

lemma hgetall_updateJob:
  "hgetall (snd (updateJob_redis now i u r)) k =
     (case hgetall r (JOB_PREFIX @ i) of
        None \<Rightarrow> hgetall r k
      | Some existing \<Rightarrow>
          if dom existing = {} \<or> k \<noteq> JOB_PREFIX @ i then hgetall r k
          else Some ((existing ++ updates_fields u)(''updatedAt'' \<mapsto> RDate now)))"
proof (cases "hgetall r (JOB_PREFIX @ i)")
  case None
  then show ?thesis by (simp add: updateJob_redis_def)
next
  case (Some existing)
  have "existing ++ (existing ++ updates_fields u)(''updatedAt'' \<mapsto> RDate now)
          = (existing ++ updates_fields u)(''updatedAt'' \<mapsto> RDate now)"
    by (rule ext) (simp add: map_add_def split: option.splits)
  with Some show ?thesis
    by (simp add: updateJob_redis_def Let_def hgetall_hset)
qed

lemma read_undefined [simp]:
  "read_number (Some (case v of None \<Rightarrow> RUndefined | Some n \<Rightarrow> RNum n)) = v"
  "read_string (Some (case x of None \<Rightarrow> RUndefined | Some s \<Rightarrow> RStr s)) = x"
  by (simp_all add: read_number_def read_string_def split: option.splits)

lemma tracks_redis: "tracks redis_ops view_redis"
  unfolding tracks_def
proof (intro conjI allI impI)
  fix fmt a b i msg r j assume there: "view_redis r i \<noteq> None"
  show "view_redis (addJobLog_op redis_ops fmt a b i msg r) j = view_redis r j"
    using there
    by (auto simp: redis_ops_def view_redis_hash hgetall_addJobLog JOB_PREFIX_def
        split: option.splits if_splits)
next
  fix now i u r j
  show "view_redis (updateJob_op redis_ops now i u r) j
          = (if j = i then map_option (merge_view u) (view_redis r j) else view_redis r j)"
    by (auto simp: redis_ops_def view_redis_hash hgetall_updateJob JOB_PREFIX_def merge_view_def
        map_add_def updates_fields_apply split: option.splits if_splits)
qed


lemma validate_missing_run:
  assumes tr: "tracks ops view"
    and job: "view s (bp_jobId params) = Some (st, pr0, er)"
    and auth: "\<And>cs. getInstallationOctokit (github e) cs (bp_installationId params) = None"
    and react: "\<And>cs. createForIssueComment (github e) cs (bp_repository params)
                        (bp_commentId params) ''eyes'' = None"
    and pr: "\<And>cs. pulls_get (github e) cs (bp_repository params) (bp_prNumber params)
                     = Inr (pullf cs)"
    and cms: "\<And>cs. pulls_listCommits (github e) cs (bp_repository params) (bp_prNumber params)
                     = Inr (commitsf cs)"
    and df: "\<And>cs. pulls_get_diff (github e) cs (bp_repository params) (bp_prNumber params)
                     = Inr (difff cs)"
    and missing: "\<And>cs. getBranch (github e) cs (bp_repository params) (bp_targetBranch params)
                     \<noteq> None"
  shows "\<exists>w'. backportPullRequest_with pb ops e params (fresh_world s t)
                 = (Threw (FatalError (branch_missing (bp_targetBranch params))), w')
              \<and> view (store w') (bp_jobId params)
                  = Some (Some Failed, pr0, Some (branch_missing (bp_targetBranch params)))
              \<and> attempts w' ValidateTargetBranch = 1
              \<and> attempts w' AnalyzeChanges = 0 \<and> attempts w' PerformBackport = 0
              \<and> attempts w' CreateBackportPR = 0 \<and> attempts w' ReportSuccess = 0
              \<and> attempts w' ReportFailure = 0"
proof -
  from tr have log: "view s i \<noteq> None \<Longrightarrow> view (addJobLog_op ops fmt a b i msg s) j = view s j"
    and upd: "view (updateJob_op ops now i u s) j
               = (if j = i then map_option (merge_view u) (view s j) else view s j)"
    for fmt a b i msg s j now u
    by (simp_all add: tracks_def)
  have ack: "acknowledgeRequest (github e) (bp_installationId params) (bp_repository params)
               (bp_commentId params) cs
             = (Inr (), cs @ [Auth (bp_installationId params),
                              React (bp_repository params) (bp_commentId params) ''eyes''])"
    for cs
    by (simp add: acknowledgeRequest_def io_defs auth react)
  define d where "d cs = projr (fst (fetchPRDetails (github e) (bp_installationId params)
               (bp_repository params) (bp_prNumber params) cs))" for cs
  have fetch: "fetchPRDetails (github e) (bp_installationId params) (bp_repository params)
               (bp_prNumber params) cs
             = (Inr (d cs), cs @ [Auth (bp_installationId params),
                  GetPR (bp_repository params) (bp_prNumber params),
                  ListCommits (bp_repository params) (bp_prNumber params),
                  GetDiff (bp_repository params) (bp_prNumber params)])" for cs
    by (simp add: d_def fetchPRDetails_def io_defs auth pr cms df)
  have val: "validateTargetBranch (github e) (bp_installationId params) (bp_repository params)
               (bp_targetBranch params) cs
             = (Inl (FatalError (branch_missing (bp_targetBranch params))),
                cs @ [Auth (bp_installationId params),
                      GetBranch (bp_repository params) (bp_targetBranch params)])" for cs
    using missing [of "cs @ [Auth (bp_installationId params)]"]
    by (auto simp: validateTargetBranch_def io_defs auth)
  show ?thesis
    unfolding backportPullRequest_with_def try_block_def catch_block_def fresh_world_def
    using job
    by (simp add: wf_run run_step_once ack fetch val projections log upd merge_view_def
        no_updates_def)
qed

section \<open>What a step leaves alone\<close>

lemma attempt_frame:
  assumes "attempt s fn w = (r, w')"
  shows "store w' = store w \<and> ticks w' = ticks w \<and> recorded w' = recorded w
         \<and> budget w' = budget w \<and> (\<forall>s'. s' \<noteq> s \<longrightarrow> attempts w' s' = attempts w s')
         \<and> attempts w s < attempts w' s"
  using assms by (auto simp: attempt_def split: prod.splits)

lemma run_attempts_frame:
  "run_attempts n s fn w = (r, w') \<Longrightarrow>
   store w' = store w \<and> ticks w' = ticks w \<and> recorded w' = recorded w
   \<and> budget w' = budget w \<and> (\<forall>s'. s' \<noteq> s \<longrightarrow> attempts w' s' = attempts w s')
   \<and> attempts w s < attempts w' s"
proof (induction n arbitrary: w)
  case 0
  then show ?case using attempt_frame [of s fn w r w'] by simp
next
  case (Suc n)
  obtain r1 w1 where a: "attempt s fn w = (r1, w1)" by (cases "attempt s fn w")
  note f = attempt_frame [OF a]
  show ?case
  proof (cases "case r1 of Inr v \<Rightarrow> True | Inl x \<Rightarrow> is_fatal x")
    case True
    with Suc.prems a have "w' = w1" by (auto split: sum.splits)
    with f show ?thesis by simp
  next
    case False
    with Suc.prems a have "run_attempts n s fn w1 = (r, w')" by (auto split: sum.splits)
    from Suc.IH [OF this] f show ?thesis by auto
  qed
qed

lemma execute_frame:
  assumes "execute e s fn w = (out, w')"
  shows "store w' = store w \<and> ticks w' = ticks w
         \<and> (\<forall>s'. s' \<noteq> s \<longrightarrow> attempts w' s' = attempts w s' \<and> recorded w' s' = recorded w s')"
proof (cases "recorded w s = None \<and> budget w \<noteq> Some 0")
  case False
  with assms show ?thesis by (auto simp: execute_def split: option.splits if_splits)
next
  case True
  obtain r w1 where r: "run_attempts (attempt_ceiling e - 1) s fn w = (r, w1)"
    by (cases "run_attempts (attempt_ceiling e - 1) s fn w")
  with True assms have "w' = w1 \<lparr> recorded := (recorded w1)(s \<mapsto> r),
                                   budget := map_option (\<lambda>b. b - 1) (budget w1) \<rparr>"
    by (auto simp: execute_def)
  with run_attempts_frame [OF r] show ?thesis by simp
qed

lemma run_step_frame:
  assumes "run_step e s wrap proj fn w = (out, w')"
  shows "store w' = store w \<and> ticks w' = ticks w
         \<and> (\<forall>s'. s' \<noteq> s \<longrightarrow> attempts w' s' = attempts w s' \<and> recorded w' s' = recorded w s')"
proof -
  obtain o1 w1 where x: "execute e s (io_bind fn (\<lambda>a. io_return (wrap a))) w = (o1, w1)"
    by (cases "execute e s (io_bind fn (\<lambda>a. io_return (wrap a))) w")
  with assms have "w' = w1"
    by (cases o1) (auto simp: run_step_def wf_bind_def wf_return_def wf_throw_def
        split: option.splits)
  with execute_frame [OF x] show ?thesis by simp
qed


section \<open>A failure of the acknowledgement\<close>

lemma acknowledge_failure_run:
  assumes tr: "tracks ops view"
    and job: "view (store w) (bp_jobId params) = Some (st, pr, er)"
    and ack: "run_step e AcknowledgeRequest (\<lambda>_. VUndefined) any_value
                (acknowledgeRequest (github e) (bp_installationId params) (bp_repository params)
                   (bp_commentId params)) w = (Threw err, w1)"
  shows "\<exists>w'. backportPullRequest_with pb ops e params w = (Threw err, w')
              \<and> view (store w') (bp_jobId params)
                  = Some (Some Failed, pr, Some (error_message err))
              \<and> (\<forall>s. s \<noteq> AcknowledgeRequest \<longrightarrow> attempts w' s = attempts w s)"
proof -
  from tr have log: "view s i \<noteq> None \<Longrightarrow> view (addJobLog_op ops fmt a b i msg s) j = view s j"
    and upd: "view (updateJob_op ops now i u s) j
               = (if j = i then map_option (merge_view u) (view s j) else view s j)"
    for fmt a b i msg s j now u
    by (simp_all add: tracks_def)
  note f = run_step_frame [OF ack]
  show ?thesis
    unfolding backportPullRequest_with_def try_block_def catch_block_def
    using f job
    by (simp add: wf_run ack log upd merge_view_def no_updates_def)
qed


lemmas example_defs = example_env_def example_github_def example_run_def example_store_def
  example_redis_def example_params_def createJob_mem_def createJob_redis_def

lemma example_ack_fails:
  "run_step (example_env (example_github [''v1''] 0 True)) AcknowledgeRequest
     (\<lambda>_. VUndefined) any_value
     (acknowledgeRequest (github (example_env (example_github [''v1''] 0 True))) 7 ''octo/app'' 99)
     (fresh_world s t)
   = (Threw (RequestError 500 ''boom''),
      \<lparr> store = s, ticks = t,
        calls = [Auth 7, React ''octo/app'' 99 ''eyes'', Auth 7, React ''octo/app'' 99 ''eyes'',
                 Auth 7, React ''octo/app'' 99 ''eyes''],
        recorded = [AcknowledgeRequest \<mapsto> Inl (RequestError 500 ''boom'')],
        attempts = (\<lambda>_. 0)(AcknowledgeRequest := 3), budget = None \<rparr>)"
  by (simp add: run_step_def execute_def fresh_world_def example_env_def example_github_def
      acknowledgeRequest_def io_defs wf_run attempt_def eval_nat_numeral)

lemma jobToRedis_apply:
  "jobToRedis job ''status'' = Some (RStr (status_string (status job)))"
  "jobToRedis job ''resultPR'' = map_option RNum (resultPR job)"
  "jobToRedis job ''error'' = map_option RStr (error job)"
  by (simp_all add: jobToRedis_def map_add_def own_prop_apply split: option.splits)

lemma jobToRedis_dom: "jobToRedis job \<noteq> Map.empty"
proof
  assume "jobToRedis job = Map.empty"
  then have "jobToRedis job ''status'' = None" by simp
  then show False by (simp add: jobToRedis_apply)
qed

lemma view_redis_createJob:
  "view_redis (snd (createJob_redis gid now params empty_redis)) gid
     = Some (Some Pending, p_resultPR params, p_error params)"
proof -
  have "hgetall (snd (createJob_redis gid now params empty_redis)) (JOB_PREFIX @ gid)
          = Some (jobToRedis (fst (createJob_redis gid now params empty_redis)))"
    by (simp add: createJob_redis_def Let_def hgetall_def hset_def zadd_def empty_redis_def)
  then show ?thesis
    by (simp add: view_redis_hash jobToRedis_dom jobToRedis_apply)
      (simp add: createJob_redis_def Let_def read_number_def read_string_def
        split: option.splits)
qed

lemma example_views:
  "view_mem example_store ''bp_1_a'' = Some (Some Pending, None, None)"
  "view_redis example_redis ''bp_1_a'' = Some (Some Pending, None, None)"
  by (simp_all add: view_mem_def getJob_mem_def example_store_def createJob_mem_def Let_def
      example_params_def example_redis_def view_redis_createJob)

text \<open>
  Claim C3, as amended. If the step \<^verbatim>\<open>acknowledgeRequest\<close> fails, the run aborts: the
  workflow throws the error of the step, the job is set to \<^verbatim>\<open>failed\<close> with the message of
  that error, and no other step runs.
\<close>

theorem acknowledge_failure_aborts:
  "(\<forall>w w1 st pr er.
      view_mem (store w) (bp_jobId params) = Some (st, pr, er)
      \<and> run_step e AcknowledgeRequest (\<lambda>_. VUndefined) any_value
            (acknowledgeRequest (github e) (bp_installationId params) (bp_repository params)
               (bp_commentId params)) w = (Threw err, w1)
      \<longrightarrow> (\<exists>w'. backportPullRequest_with pb mem_ops e params w = (Threw err, w')
              \<and> view_mem (store w') (bp_jobId params)
                  = Some (Some Failed, pr, Some (error_message err))
              \<and> (\<forall>s. s \<noteq> AcknowledgeRequest \<longrightarrow> attempts w' s = attempts w s)))
   \<and> (\<forall>w w1 st pr er.
      view_redis (store w) (bp_jobId params) = Some (st, pr, er)
      \<and> run_step e AcknowledgeRequest (\<lambda>_. VUndefined) any_value
            (acknowledgeRequest (github e) (bp_installationId params) (bp_repository params)
               (bp_commentId params)) w = (Threw err, w1)
      \<longrightarrow> (\<exists>w'. backportPullRequest_with pb redis_ops e params w = (Threw err, w')
              \<and> view_redis (store w') (bp_jobId params)
                  = Some (Some Failed, pr, Some (error_message err))
              \<and> (\<forall>s. s \<noteq> AcknowledgeRequest \<longrightarrow> attempts w' s = attempts w s)))"
  using acknowledge_failure_run [OF tracks_mem] acknowledge_failure_run [OF tracks_redis]
  by blast

theorem acknowledge_failure_aborts_witness:
  "view_mem (store (fresh_world example_store 0)) ''bp_1_a'' = Some (Some Pending, None, None)
   \<and> fst (run_step (example_env (example_github [''v1''] 0 True)) AcknowledgeRequest
            (\<lambda>_. VUndefined) any_value
            (acknowledgeRequest (example_github [''v1''] 0 True) 7 ''octo/app'' 99)
            (fresh_world example_store 0))
       = Threw (RequestError 500 ''boom'')
   \<and> fst (backportPullRequest_with performBackport mem_ops
            (example_env (example_github [''v1''] 0 True)) (example_run ''v1'')
            (fresh_world example_store 0))
       = Threw (RequestError 500 ''boom'')
   \<and> view_mem (store (snd (backportPullRequest_with performBackport mem_ops
            (example_env (example_github [''v1''] 0 True)) (example_run ''v1'')
            (fresh_world example_store 0)))) ''bp_1_a''
       = Some (Some Failed, None, Some ''boom'')
   \<and> attempts (snd (backportPullRequest_with performBackport mem_ops
            (example_env (example_github [''v1''] 0 True)) (example_run ''v1'')
            (fresh_world example_store 0))) FetchPRDetails = 0
   \<and> fst (backportPullRequest_with performBackport redis_ops
            (example_env (example_github [''v1''] 0 True)) (example_run ''v1'')
            (fresh_world example_redis 0))
       = Threw (RequestError 500 ''boom'')
   \<and> view_redis (store (snd (backportPullRequest_with performBackport redis_ops
            (example_env (example_github [''v1''] 0 True)) (example_run ''v1'')
            (fresh_world example_redis 0)))) ''bp_1_a''
       = Some (Some Failed, None, Some ''boom'')"
proof -
  let ?e = "example_env (example_github [''v1''] 0 True)"
  let ?p = "example_run ''v1''"
  have par: "bp_jobId ?p = ''bp_1_a''" "bp_installationId ?p = 7" "bp_repository ?p = ''octo/app''"
    "bp_commentId ?p = 99" "github ?e = example_github [''v1''] 0 True"
    by (simp_all add: example_run_def example_env_def)
  have vm: "view_mem (store (fresh_world example_store 0)) (bp_jobId ?p)
              = Some (Some Pending, None, None)"
    and vr: "view_redis (store (fresh_world example_redis 0)) (bp_jobId ?p)
              = Some (Some Pending, None, None)"
    by (simp_all add: par fresh_world_def example_views)
  have am: "run_step ?e AcknowledgeRequest (\<lambda>_. VUndefined) any_value
            (acknowledgeRequest (github ?e) (bp_installationId ?p) (bp_repository ?p)
               (bp_commentId ?p)) (fresh_world example_store 0)
          = (Threw (RequestError 500 ''boom''),
             \<lparr> store = example_store, ticks = 0,
               calls = [Auth 7, React ''octo/app'' 99 ''eyes'', Auth 7,
                        React ''octo/app'' 99 ''eyes'', Auth 7, React ''octo/app'' 99 ''eyes''],
               recorded = [AcknowledgeRequest \<mapsto> Inl (RequestError 500 ''boom'')],
               attempts = (\<lambda>_. 0)(AcknowledgeRequest := 3), budget = None \<rparr>)"
    using example_ack_fails [of example_store 0] by (simp add: par)
  have ar: "run_step ?e AcknowledgeRequest (\<lambda>_. VUndefined) any_value
            (acknowledgeRequest (github ?e) (bp_installationId ?p) (bp_repository ?p)
               (bp_commentId ?p)) (fresh_world example_redis 0)
          = (Threw (RequestError 500 ''boom''),
             \<lparr> store = example_redis, ticks = 0,
               calls = [Auth 7, React ''octo/app'' 99 ''eyes'', Auth 7,
                        React ''octo/app'' 99 ''eyes'', Auth 7, React ''octo/app'' 99 ''eyes''],
               recorded = [AcknowledgeRequest \<mapsto> Inl (RequestError 500 ''boom'')],
               attempts = (\<lambda>_. 0)(AcknowledgeRequest := 3), budget = None \<rparr>)"
    using example_ack_fails [of example_redis 0] by (simp add: par)
  note T = acknowledge_failure_aborts [of ?p ?e "RequestError 500 ''boom''" performBackport]
  from T [THEN conjunct1, rule_format, OF conjI, OF vm am]
  obtain wm where m: "backportPullRequest_with performBackport mem_ops ?e ?p
                        (fresh_world example_store 0) = (Threw (RequestError 500 ''boom''), wm)"
    "view_mem (store wm) (bp_jobId ?p) = Some (Some Failed, None, Some (error_message (RequestError 500 ''boom'')))"
    "\<forall>s. s \<noteq> AcknowledgeRequest \<longrightarrow> attempts wm s = attempts (fresh_world example_store 0) s"
    by (elim exE conjE) (rule that, assumption+)
  from T [THEN conjunct2, rule_format, OF conjI, OF vr ar]
  obtain wr where r: "backportPullRequest_with performBackport redis_ops ?e ?p
                        (fresh_world example_redis 0) = (Threw (RequestError 500 ''boom''), wr)"
    "view_redis (store wr) (bp_jobId ?p) = Some (Some Failed, None, Some (error_message (RequestError 500 ''boom'')))"
    by (elim exE conjE) (rule that, assumption+)
  show ?thesis
    using m r vm am by (simp add: par fresh_world_def)
qed


text \<open>
  Claim C3 as stated fails: on a collaborator that answers the reaction request with a
  500, the run throws after the acknowledgement, the job is \<^verbatim>\<open>failed\<close>, and the details
  of the pull request are never fetched.
\<close>

theorem acknowledge_failure_counterexample:
  "fst (backportPullRequest mem_ops (example_env (example_github [''v1''] 0 True))
          (example_run ''v1'') (fresh_world example_store 0))
     = Threw (RequestError 500 ''boom'')
   \<and> view_mem (store (snd (backportPullRequest mem_ops
          (example_env (example_github [''v1''] 0 True)) (example_run ''v1'')
          (fresh_world example_store 0)))) ''bp_1_a''
     = Some (Some Failed, None, Some ''boom'')
   \<and> attempts (snd (backportPullRequest mem_ops
          (example_env (example_github [''v1''] 0 True)) (example_run ''v1'')
          (fresh_world example_store 0))) FetchPRDetails = 0"
proof -
  let ?e = "example_env (example_github [''v1''] 0 True)"
  let ?p = "example_run ''v1''"
  have par: "bp_jobId ?p = ''bp_1_a''" "bp_installationId ?p = 7" "bp_repository ?p = ''octo/app''"
    "bp_commentId ?p = 99" "github ?e = example_github [''v1''] 0 True"
    by (simp_all add: example_run_def example_env_def)
  have vm: "view_mem (store (fresh_world example_store 0)) (bp_jobId ?p)
              = Some (Some Pending, None, None)"
    by (simp add: par fresh_world_def example_views)
  have am: "run_step ?e AcknowledgeRequest (\<lambda>_. VUndefined) any_value
            (acknowledgeRequest (github ?e) (bp_installationId ?p) (bp_repository ?p)
               (bp_commentId ?p)) (fresh_world example_store 0)
          = (Threw (RequestError 500 ''boom''),
             \<lparr> store = example_store, ticks = 0,
               calls = [Auth 7, React ''octo/app'' 99 ''eyes'', Auth 7,
                        React ''octo/app'' 99 ''eyes'', Auth 7, React ''octo/app'' 99 ''eyes''],
               recorded = [AcknowledgeRequest \<mapsto> Inl (RequestError 500 ''boom'')],
               attempts = (\<lambda>_. 0)(AcknowledgeRequest := 3), budget = None \<rparr>)"
    using example_ack_fails [of example_store 0] by (simp add: par)
  from acknowledge_failure_run [OF tracks_mem vm am, of performBackport]
  show ?thesis
    by (auto simp: backportPullRequest_def par fresh_world_def)
qed

text \<open>
  Claim C5. On a collaborator whose other requests succeed and whose \<^verbatim>\<open>getBranch\<close> fails
  for the target branch, a run from a fresh table throws the \<^verbatim>\<open>FatalError\<close> of
  \<^verbatim>\<open>validateTargetBranch\<close>: the step is attempted once whatever the attempt ceiling, no
  later step is attempted, and the job ends \<^verbatim>\<open>failed\<close> with an error message that
  contains the name of the branch.
\<close>

theorem missing_branch_is_fatal:
  assumes "\<forall>cs. getInstallationOctokit (github e) cs (bp_installationId params) = None"
    and "\<forall>cs. createForIssueComment (github e) cs (bp_repository params)
                        (bp_commentId params) ''eyes'' = None"
    and "\<forall>cs. \<exists>p. pulls_get (github e) cs (bp_repository params) (bp_prNumber params) = Inr p"
    and "\<forall>cs. \<exists>c. pulls_listCommits (github e) cs (bp_repository params) (bp_prNumber params)
                     = Inr c"
    and "\<forall>cs. \<exists>d. pulls_get_diff (github e) cs (bp_repository params) (bp_prNumber params)
                     = Inr d"
    and "\<forall>cs. getBranch (github e) cs (bp_repository params) (bp_targetBranch params) \<noteq> None"
  shows "(\<forall>s t st pr er. view_mem s (bp_jobId params) = Some (st, pr, er) \<longrightarrow>
          (\<exists>w'. backportPullRequest_with pb mem_ops e params (fresh_world s t)
                 = (Threw (FatalError (branch_missing (bp_targetBranch params))), w')
              \<and> view_mem (store w') (bp_jobId params)
                  = Some (Some Failed, pr, Some (branch_missing (bp_targetBranch params)))
              \<and> attempts w' ValidateTargetBranch = 1
              \<and> attempts w' AnalyzeChanges = 0 \<and> attempts w' PerformBackport = 0
              \<and> attempts w' CreateBackportPR = 0 \<and> attempts w' ReportSuccess = 0
              \<and> attempts w' ReportFailure = 0))
      \<and> (\<forall>s t st pr er. view_redis s (bp_jobId params) = Some (st, pr, er) \<longrightarrow>
          (\<exists>w'. backportPullRequest_with pb redis_ops e params (fresh_world s t)
                 = (Threw (FatalError (branch_missing (bp_targetBranch params))), w')
              \<and> view_redis (store w') (bp_jobId params)
                  = Some (Some Failed, pr, Some (branch_missing (bp_targetBranch params)))
              \<and> attempts w' ValidateTargetBranch = 1
              \<and> attempts w' AnalyzeChanges = 0 \<and> attempts w' PerformBackport = 0
              \<and> attempts w' CreateBackportPR = 0 \<and> attempts w' ReportSuccess = 0
              \<and> attempts w' ReportFailure = 0))
      \<and> (\<exists>a b. branch_missing (bp_targetBranch params) = a @ bp_targetBranch params @ b)"
proof -
  from assms(3) obtain pullf where pr: "\<And>cs. pulls_get (github e) cs (bp_repository params)
      (bp_prNumber params) = Inr (pullf cs)" by metis
  from assms(4) obtain commitsf where cms: "\<And>cs. pulls_listCommits (github e) cs
      (bp_repository params) (bp_prNumber params) = Inr (commitsf cs)" by metis
  from assms(5) obtain difff where df: "\<And>cs. pulls_get_diff (github e) cs
      (bp_repository params) (bp_prNumber params) = Inr (difff cs)" by metis
  note run = validate_missing_run [where e = e and params = params and pb = pb,
      OF _ _ assms(1) [rule_format] assms(2) [rule_format] pr cms df assms(6) [rule_format]]
  have "branch_missing (bp_targetBranch params)
          = (''Target branch '' @ [CHR 0x27]) @ bp_targetBranch params
            @ ([CHR 0x27] @ '' does not exist'')"
    by (simp add: branch_missing_def)
  then have "\<exists>a b. branch_missing (bp_targetBranch params) = a @ bp_targetBranch params @ b"
    by blast
  with run [OF tracks_mem] run [OF tracks_redis] show ?thesis
    by blast
qed


theorem missing_branch_is_fatal_witness:
  "fst (backportPullRequest_with performBackport mem_ops
          (example_env (example_github [''v1''] 0 False)) (example_run ''release-1.2'')
          (fresh_world example_store 0))
     = Threw (FatalError (branch_missing ''release-1.2''))
   \<and> view_mem (store (snd (backportPullRequest_with performBackport mem_ops
          (example_env (example_github [''v1''] 0 False)) (example_run ''release-1.2'')
          (fresh_world example_store 0)))) ''bp_1_a''
     = Some (Some Failed, None, Some (branch_missing ''release-1.2''))
   \<and> attempts (snd (backportPullRequest_with performBackport mem_ops
          (example_env (example_github [''v1''] 0 False)) (example_run ''release-1.2'')
          (fresh_world example_store 0))) ValidateTargetBranch = 1
   \<and> attempts (snd (backportPullRequest_with performBackport mem_ops
          (example_env (example_github [''v1''] 0 False)) (example_run ''release-1.2'')
          (fresh_world example_store 0))) AnalyzeChanges = 0
   \<and> fst (backportPullRequest_with performBackport redis_ops
          (example_env (example_github [''v1''] 0 False)) (example_run ''release-1.2'')
          (fresh_world example_redis 0))
     = Threw (FatalError (branch_missing ''release-1.2''))
   \<and> view_redis (store (snd (backportPullRequest_with performBackport redis_ops
          (example_env (example_github [''v1''] 0 False)) (example_run ''release-1.2'')
          (fresh_world example_redis 0)))) ''bp_1_a''
     = Some (Some Failed, None, Some (branch_missing ''release-1.2''))"
proof -
  let ?e = "example_env (example_github [''v1''] 0 False)"
  let ?p = "example_run ''release-1.2''"
  have par: "bp_jobId ?p = ''bp_1_a''" "bp_targetBranch ?p = ''release-1.2''"
    by (simp_all add: example_run_def)
  note T = missing_branch_is_fatal [of ?e ?p performBackport]
  have T': "(\<forall>s t st pr er. view_mem s (bp_jobId ?p) = Some (st, pr, er) \<longrightarrow>
          (\<exists>w'. backportPullRequest_with performBackport mem_ops ?e ?p (fresh_world s t)
                 = (Threw (FatalError (branch_missing (bp_targetBranch ?p))), w')
              \<and> view_mem (store w') (bp_jobId ?p)
                  = Some (Some Failed, pr, Some (branch_missing (bp_targetBranch ?p)))
              \<and> attempts w' ValidateTargetBranch = 1
              \<and> attempts w' AnalyzeChanges = 0 \<and> attempts w' PerformBackport = 0
              \<and> attempts w' CreateBackportPR = 0 \<and> attempts w' ReportSuccess = 0
              \<and> attempts w' ReportFailure = 0))
      \<and> (\<forall>s t st pr er. view_redis s (bp_jobId ?p) = Some (st, pr, er) \<longrightarrow>
          (\<exists>w'. backportPullRequest_with performBackport redis_ops ?e ?p (fresh_world s t)
                 = (Threw (FatalError (branch_missing (bp_targetBranch ?p))), w')
              \<and> view_redis (store w') (bp_jobId ?p)
                  = Some (Some Failed, pr, Some (branch_missing (bp_targetBranch ?p)))
              \<and> attempts w' ValidateTargetBranch = 1
              \<and> attempts w' AnalyzeChanges = 0 \<and> attempts w' PerformBackport = 0
              \<and> attempts w' CreateBackportPR = 0 \<and> attempts w' ReportSuccess = 0
              \<and> attempts w' ReportFailure = 0))
      \<and> (\<exists>a b. branch_missing (bp_targetBranch ?p) = a @ bp_targetBranch ?p @ b)"
    by (rule T) (simp_all add: example_env_def example_github_def example_run_def)
  from T' [THEN conjunct1, rule_format, of example_store "Some Pending" None None 0]
  obtain wm where m:
    "backportPullRequest_with performBackport mem_ops ?e ?p (fresh_world example_store 0)
       = (Threw (FatalError (branch_missing (bp_targetBranch ?p))), wm)"
    "view_mem (store wm) (bp_jobId ?p)
       = Some (Some Failed, None, Some (branch_missing (bp_targetBranch ?p)))"
    "attempts wm ValidateTargetBranch = 1" "attempts wm AnalyzeChanges = 0"
    by (auto simp: par example_views)
  from T' [THEN conjunct2, THEN conjunct1, rule_format, of example_redis "Some Pending" None
      None 0]
  obtain wr where r:
    "backportPullRequest_with performBackport redis_ops ?e ?p (fresh_world example_redis 0)
       = (Threw (FatalError (branch_missing (bp_targetBranch ?p))), wr)"
    "view_redis (store wr) (bp_jobId ?p)
       = Some (Some Failed, None, Some (branch_missing (bp_targetBranch ?p)))"
    by (auto simp: par example_views)
  show ?thesis
    using m r by (simp add: par)
qed

text \<open>
  Claim C4 says that two 502 answers to \<^verbatim>\<open>getBranch\<close> followed by a success make three
  attempts of the step and a run that completes. \<^verbatim>\<open>validateTargetBranch\<close> catches
  whatever \<^verbatim>\<open>getBranch\<close> throws and throws a \<^verbatim>\<open>FatalError\<close> in its place, so the first
  502 ends the run: one attempt, and a job that is \<^verbatim>\<open>failed\<close> with the message that the
  branch does not exist, although the third request for it would have succeeded.
\<close>

theorem transient_getBranch_is_fatal:
  "getBranch (example_github [''v1''] 2 False) [] ''octo/app'' ''v1''
     = Some (RequestError 502 ''Bad Gateway'')
   \<and> getBranch (example_github [''v1''] 2 False)
       [GetBranch ''octo/app'' ''v1'', GetBranch ''octo/app'' ''v1''] ''octo/app'' ''v1'' = None
   \<and> fst (backportPullRequest mem_ops (example_env (example_github [''v1''] 2 False))
          (example_run ''v1'') (fresh_world example_store 0))
     = Threw (FatalError (branch_missing ''v1''))
   \<and> attempts (snd (backportPullRequest mem_ops (example_env (example_github [''v1''] 2 False))
          (example_run ''v1'') (fresh_world example_store 0))) ValidateTargetBranch = 1
   \<and> view_mem (store (snd (backportPullRequest mem_ops
          (example_env (example_github [''v1''] 2 False)) (example_run ''v1'')
          (fresh_world example_store 0)))) ''bp_1_a''
     = Some (Some Failed, None, Some (branch_missing ''v1''))"
proof -
  let ?c = "example_github [''v1''] 2 False"
  let ?e = "example_env ?c"
  let ?p = "example_run ''v1''"
  from tracks_mem
  have log: "view_mem s i \<noteq> None \<Longrightarrow> view_mem (addJobLog_op mem_ops fmt a b i msg s) j = view_mem s j"
    and upd: "view_mem (updateJob_op mem_ops now i u s) j
               = (if j = i then map_option (merge_view u) (view_mem s j) else view_mem s j)"
    for fmt a b i msg s j now u
    by (simp_all add: tracks_def)
  show ?thesis
    unfolding backportPullRequest_def backportPullRequest_with_def try_block_def catch_block_def
      fresh_world_def
    by (simp add: wf_run run_step_once projections log upd merge_view_def no_updates_def
        example_views example_env_def example_run_def acknowledgeRequest_def
        fetchPRDetails_def validateTargetBranch_def io_defs example_github_def
        is_GetBranch_def)
qed

section \<open>Invariants of a run\<close>













section \<open>The history of a run\<close>






























section \<open>The requests of a step\<close>














section \<open>What the table says of a step\<close>



lemma execute_crashed: "execute e s fn w = (Crashed, w') \<Longrightarrow> w' = w"
  by (auto simp: execute_def outcome_of_def split: option.splits if_splits prod.splits sum.splits)


lemma run_step_cases:
  assumes "run_step e s wrap proj fn w = (out, w')"
  obtains (returned) v a where "execute e s (io_bind fn (\<lambda>a. io_return (wrap a))) w = (Returned v, w')"
      "proj v = Some a" "out = Returned a"
    | (shape) v where "execute e s (io_bind fn (\<lambda>a. io_return (wrap a))) w = (Returned v, w')"
      "proj v = None" "out = Threw (TypeError ''recorded value has another shape'')"
    | (threw) x where "execute e s (io_bind fn (\<lambda>a. io_return (wrap a))) w = (Threw x, w')"
      "out = Threw x"
    | (crashed) "execute e s (io_bind fn (\<lambda>a. io_return (wrap a))) w = (Crashed, w')"
      "out = Crashed"
proof -
  obtain o1 w1 where x: "execute e s (io_bind fn (\<lambda>a. io_return (wrap a))) w = (o1, w1)"
    by (cases "execute e s (io_bind fn (\<lambda>a. io_return (wrap a))) w")
  show ?thesis
  proof (cases o1)
    case (Returned v)
    with x assms show ?thesis
      by (cases "proj v")
        (auto simp: run_step_def wf_bind_def wf_return_def wf_throw_def intro: returned shape)
  next
    case (Threw y)
    with x assms show ?thesis
      by (auto simp: run_step_def wf_bind_def intro: threw)
  next
    case Crashed
    with x assms show ?thesis
      by (auto simp: run_step_def wf_bind_def intro: crashed)
  qed
qed


lemma run_step_crashed: "run_step e s wrap proj fn w = (Crashed, w') \<Longrightarrow> w' = w"
  by (erule run_step_cases) (auto dest: execute_crashed)




section \<open>A failure value of performBackport\<close>

lemma wp_run: "m w = (out, w') \<Longrightarrow> Q out w' \<Longrightarrow> wp m Q w"
  by (simp add: wp_def)








end
